theory Spec2Isabelle
  imports Main "HOL-Library.AList"
begin

section \<open>Python values, dictionaries and errors\<close>

text \<open>
  The exceptions the modelled code can raise. A function that can raise returns
  \<open>py_error + 'a\<close>, with \<open>Inl\<close> for the exception.
\<close>

datatype py_error = KeyError | AttributeError | IndexError | TypeError

text \<open>
  A Python \<open>dict\<close> is an association list in insertion order. \<open>d[k] = v\<close> is
  \<open>AList.update k v d\<close>: an existing key keeps its position and takes the new value, a new
  key is appended. \<open>d[k]\<close> raises \<open>KeyError\<close> on a missing key. \<open>d.update(other)\<close> stores
  the items of \<open>other\<close> into \<open>d\<close> one after the other.
\<close>

type_synonym ('k, 'v) dict = "('k \<times> 'v) list"

definition getitem :: "('k, 'v) dict \<Rightarrow> 'k \<Rightarrow> py_error + 'v" where
  "getitem d k = (case map_of d k of None \<Rightarrow> Inl KeyError | Some v \<Rightarrow> Inr v)"

definition dict_update :: "('k, 'v) dict \<Rightarrow> ('k, 'v) dict \<Rightarrow> ('k, 'v) dict" where
  "dict_update d other = fold (\<lambda>(k, v) acc. AList.update k v acc) other d"

definition keys :: "('k, 'v) dict \<Rightarrow> 'k set" where
  "keys d = fst ` set d"

text \<open>The values stored in the leaf dictionaries of the schema; \<open>PNone\<close> is Python's
  \<open>None\<close>, which \<open>json.dumps\<close> writes as \<open>null\<close>.\<close>

datatype pyval = PNone | PStr string | PBool bool | PList "string list"

definition none_or_str :: "string option \<Rightarrow> pyval" where
  "none_or_str v = (case v of None \<Rightarrow> PNone | Some s \<Rightarrow> PStr s)"

text \<open>\<open>str.split(sep)\<close> for a one-character separator, \<open>str.lower()\<close> on ASCII and
  \<open>str.startswith\<close>.\<close>

fun split_acc :: "char \<Rightarrow> string \<Rightarrow> string \<Rightarrow> string list" where
  "split_acc sep cur [] = [rev cur]"
| "split_acc sep cur (c # cs) =
     (if c = sep then rev cur # split_acc sep [] cs else split_acc sep (c # cur) cs)"

definition str_split :: "string \<Rightarrow> char \<Rightarrow> string list" where
  "str_split s sep = split_acc sep [] s"

definition lower_char :: "char \<Rightarrow> char" where
  "lower_char c =
     (let n = (of_char c :: nat) in if 65 \<le> n \<and> n \<le> 90 then char_of (n + 32) else c)"

definition str_lower :: "string \<Rightarrow> string" where
  "str_lower s = map lower_char s"

definition startswith :: "string \<Rightarrow> string \<Rightarrow> bool" where
  "startswith s p = (take (length p) s = p)"

section \<open>The attribute filter (\<open>get_is_valid_validator\<close>)\<close>

text \<open>
  The objects handed to \<open>is_valid\<close>, which are also the members of
  \<open>all_orm_descriptors\<close>: the code calls \<open>is_valid\<close> with strings (\<open>column.name\<close>,
  \<open>str(rel.key)\<close>) and, in \<open>render_hybrid_properties\<close>, with the \<open>hybrid_property\<close>
  object itself, which has a \<open>__name__\<close> (carried here) but no \<open>split\<close> attribute.
\<close>

datatype pyobj = Str string | HybridProperty string | OtherDescriptor

text \<open>
  \<^verbatim>\<open>
  def get_is_valid_validator(included, excluded):
      def is_valid(column):
          column = column.split('.')[-1]
          valid_excl = True
          valid_incl = True
          if excluded:
              valid_excl = column not in excluded
          if included:
              valid_incl = column in included
          return valid_excl and valid_incl
      return is_valid
  \<close>
  \<open>str.split\<close> never returns an empty list, so \<open>[-1]\<close> is \<open>last\<close>. On an object that
  is not a string, \<open>column.split\<close> raises \<open>AttributeError\<close>.
\<close>

definition get_is_valid_validator ::
  "string list \<Rightarrow> string list \<Rightarrow> pyobj \<Rightarrow> py_error + bool" where
  "get_is_valid_validator included excluded column =
     (case column of
        Str s \<Rightarrow>
          (let column = last (str_split s (CHR ''.''));
               valid_excl = (if excluded \<noteq> [] then column \<notin> set excluded else True);
               valid_incl = (if included \<noteq> [] then column \<in> set included else True)
           in Inr (valid_excl \<and> valid_incl))
      | _ \<Rightarrow> Inl AttributeError)"

text \<open>The final dot-separated segment of a name, as the words of the specification have it:
  what follows the last dot, or the whole name when it has no dot.\<close>

definition final_segment :: "string \<Rightarrow> string" where
  "final_segment name = rev (takeWhile (\<lambda>c. c \<noteq> CHR ''.'') (rev name))"

section \<open>Model metadata\<close>

text \<open>
  What the renderers read from a SQLAlchemy model class. A column carries \<open>column.name\<close>
  and \<open>column.type.__class__.__name__\<close>; a relationship carries \<open>rel.key\<close>,
  \<open>rel.direction\<close>, \<open>rel.uselist\<close>, \<open>rel.mapper.class_.__name__\<close>,
  \<open>rel.back_populates\<close> and the keys of \<open>list(rel.local_columns)\<close>.
\<close>

record column =
  col_name :: string
  col_type :: string

datatype direction = ONETOMANY | MANYTOONE | MANYTOMANY

fun direction_name :: "direction \<Rightarrow> string" where
  "direction_name ONETOMANY = ''ONETOMANY''"
| "direction_name MANYTOONE = ''MANYTOONE''"
| "direction_name MANYTOMANY = ''MANYTOMANY''"

record relationship =
  rel_key :: string
  rel_direction :: direction
  rel_uselist :: bool
  rel_class :: string
  rel_back_populates :: "string option"
  rel_local_columns :: "string list"

text \<open>
  \<open>attr.remote_attr.property\<close> of an association proxy: a \<open>RelationshipProperty\<close>
  (carrying the \<open>__name__\<close> of the class \<open>get_related_association_proxy_model\<close> finds), a
  \<open>ColumnProperty\<close> (carrying \<open>columns[0].type.__class__.__name__\<close>) or something else.
  \<open>remote_property = None\<close> says that the remote attribute has no \<open>property\<close>.
\<close>

datatype property = RelationshipProperty string | ColumnProperty string | OtherProperty

record association_proxy =
  remote_property :: "property option"
  proxy_scalar :: bool

datatype class_attr = AssociationProxy association_proxy | OtherAttr

text \<open>\<open>__mapper_args__\<close>, with its two keys the code reads (\<open>None\<close>: key absent);
  \<open>polymorphic_on\<close> is a string or an object with a \<open>key\<close>.\<close>

datatype on_value = OnStr string | OnColumn string

record mapper_args =
  polymorphic_identity :: "string option"
  polymorphic_on :: "on_value option"

text \<open>A base class: its \<open>__name__\<close>, \<open>issubclass(kls, db.Model)\<close>, \<open>kls is db.Model\<close>
  and its \<open>__mapper_args__\<close> (\<open>None\<close>: no such attribute).\<close>

record kls =
  kls_name :: string
  kls_is_model_subclass :: bool
  kls_is_db_model :: bool
  kls_mapper_args :: "mapper_args option"

datatype param_kind =
  POSITIONAL_ONLY | POSITIONAL_OR_KEYWORD | VAR_POSITIONAL | KEYWORD_ONLY | VAR_KEYWORD

record parameter =
  param_name :: string
  param_kind :: param_kind
  param_has_default :: bool

text \<open>
  A model class: \<open>__name__\<close>, \<open>__bases__\<close>, \<open>__mapper_args__\<close>, \<open>__table__.columns\<close>,
  \<open>sqla_inspect(model).relationships\<close>, \<open>sqla_inspect(model).all_orm_descriptors\<close>,
  \<open>__dict__\<close>, what \<open>primary_key_name(model)\<close> returns, and the functions
  \<open>inspect.getmembers(model, predicate=inspect.isfunction)\<close> lists, each with the
  parameters of its signature.
\<close>

record model =
  model_name :: string
  model_bases :: "kls list"
  model_mapper_args :: "mapper_args option"
  table_columns :: "column list"
  relationships :: "relationship list"
  all_orm_descriptors :: "pyobj list"
  class_dict :: "(string, class_attr) dict"
  primary_key_name :: string
  member_functions :: "(string \<times> parameter list) list"

text \<open>The keyword arguments \<open>ClassDefinitionRenderer.render\<close> receives for a model.\<close>

record kwargs =
  kw_collection_name :: string
  kw_bp_name :: string
  kw_included :: "string list"
  kw_excluded :: "string list"

section \<open>The schema\<close>

text \<open>
  Relation and operation descriptors are dictionaries from key to value, so that the
  presence of a key and a \<open>None\<close> value are told apart. The \<open>polymorphic\<close> dictionary
  and the model descriptor have fixed keys; an optional key is an \<open>option\<close> (\<open>None\<close>:
  key absent).
\<close>

type_synonym descriptor = "(string, pyval) dict"

record polymorphic_info =
  poly_parent :: "string option"
  poly_on :: "string option"
  poly_identities :: "(string, string) dict option"

record model_descriptor =
  pk_name :: string
  collection_name :: string
  attributes :: "(string, string) dict"
  relations :: "(string, descriptor) dict"
  methods :: "(string, descriptor) dict option"
  polymorphic :: "polymorphic_info option"

type_synonym data_model = "(string, model_descriptor) dict"

section \<open>\<open>ClassDefinitionRenderer\<close>\<close>

text \<open>
  \<^verbatim>\<open>
  def render_attributes(self, model, is_valid):
      tbl = model.__table__
      attribute_dict = {}
      for column in tbl.columns:
          if is_valid(column.name):
              ctype = column.type.__class__.__name__.lower()
              attribute_dict[column.name] = ctype
      return attribute_dict
  \<close>
\<close>

fun render_attributes_loop ::
  "column list \<Rightarrow> (pyobj \<Rightarrow> py_error + bool) \<Rightarrow> (string, string) dict
     \<Rightarrow> py_error + (string, string) dict" where
  "render_attributes_loop [] is_valid attribute_dict = Inr attribute_dict"
| "render_attributes_loop (column # rest) is_valid attribute_dict =
     (case is_valid (Str (col_name column)) of
        Inl e \<Rightarrow> Inl e
      | Inr ok \<Rightarrow>
          render_attributes_loop rest is_valid
            (if ok then AList.update (col_name column) (str_lower (col_type column)) attribute_dict
             else attribute_dict))"

definition render_attributes ::
  "model \<Rightarrow> (pyobj \<Rightarrow> py_error + bool) \<Rightarrow> py_error + (string, string) dict" where
  "render_attributes m is_valid = render_attributes_loop (table_columns m) is_valid []"

text \<open>
  \<^verbatim>\<open>
  def render_relations(self, model, is_valid):
      foreign_keys = {}
      for rel in sqla_inspect(model).relationships:
          if is_valid(str(rel.key)):
              direction = rel.direction.name
              if rel.direction.name == 'ONETOMANY' and not rel.uselist:
                  direction = 'ONETOONE'
              foreign_keys[rel.key] = {
                  'foreign_model': rel.mapper.class_.__name__,
                  'relation_type': direction,
                  'backref': rel.back_populates,
              }
              if rel.direction.name == 'MANYTOONE':
                  local_id = list(rel.local_columns)[0].key
                  foreign_keys[rel.key]['local_column'] = local_id
      return foreign_keys
  \<close>
  \<open>relation_descriptor\<close> is the dictionary stored for one relationship that passed the
  filter; \<open>[0]\<close> on an empty list raises \<open>IndexError\<close>.
\<close>

definition relation_descriptor :: "relationship \<Rightarrow> py_error + descriptor" where
  "relation_descriptor rel =
     (let direction = direction_name (rel_direction rel);
          direction = (if direction_name (rel_direction rel) = ''ONETOMANY'' \<and> \<not> rel_uselist rel
                       then ''ONETOONE'' else direction);
          d = [(''foreign_model'', PStr (rel_class rel)),
               (''relation_type'', PStr direction),
               (''backref'', none_or_str (rel_back_populates rel))]
      in if direction_name (rel_direction rel) = ''MANYTOONE''
         then (case rel_local_columns rel of
                 [] \<Rightarrow> Inl IndexError
               | local_id # _ \<Rightarrow> Inr (AList.update ''local_column'' (PStr local_id) d))
         else Inr d)"

fun render_relations_loop ::
  "relationship list \<Rightarrow> (pyobj \<Rightarrow> py_error + bool) \<Rightarrow> (string, descriptor) dict
     \<Rightarrow> py_error + (string, descriptor) dict" where
  "render_relations_loop [] is_valid foreign_keys = Inr foreign_keys"
| "render_relations_loop (rel # rest) is_valid foreign_keys =
     (case is_valid (Str (rel_key rel)) of
        Inl e \<Rightarrow> Inl e
      | Inr ok \<Rightarrow>
          if ok then
            (case relation_descriptor rel of
               Inl e \<Rightarrow> Inl e
             | Inr d \<Rightarrow> render_relations_loop rest is_valid (AList.update (rel_key rel) d foreign_keys))
          else render_relations_loop rest is_valid foreign_keys)"

definition render_relations ::
  "model \<Rightarrow> (pyobj \<Rightarrow> py_error + bool) \<Rightarrow> py_error + (string, descriptor) dict" where
  "render_relations m is_valid = render_relations_loop (relationships m) is_valid []"

text \<open>
  \<^verbatim>\<open>
  def render_hybrid_properties(self, model, is_valid):
      attribute_dict = {}
      hybrid_properties = [a for a in sqla_inspect(model).all_orm_descriptors
                           if isinstance(a, hybrid_property)]
      for attribute in hybrid_properties:
          if is_valid(attribute):
              attribute_dict[attribute.__name__] = 'hybrid'
      return attribute_dict
  \<close>
  \<open>is_valid\<close> receives the \<open>hybrid_property\<close> object, not its name.
\<close>

fun is_hybrid_property :: "pyobj \<Rightarrow> bool" where
  "is_hybrid_property (HybridProperty _) = True"
| "is_hybrid_property _ = False"

fun dunder_name :: "pyobj \<Rightarrow> py_error + string" where
  "dunder_name (HybridProperty n) = Inr n"
| "dunder_name _ = Inl AttributeError"

fun render_hybrid_properties_loop ::
  "pyobj list \<Rightarrow> (pyobj \<Rightarrow> py_error + bool) \<Rightarrow> (string, string) dict
     \<Rightarrow> py_error + (string, string) dict" where
  "render_hybrid_properties_loop [] is_valid attribute_dict = Inr attribute_dict"
| "render_hybrid_properties_loop (attribute # rest) is_valid attribute_dict =
     (case is_valid attribute of
        Inl e \<Rightarrow> Inl e
      | Inr ok \<Rightarrow>
          if ok then
            (case dunder_name attribute of
               Inl e \<Rightarrow> Inl e
             | Inr n \<Rightarrow>
                 render_hybrid_properties_loop rest is_valid (AList.update n ''hybrid'' attribute_dict))
          else render_hybrid_properties_loop rest is_valid attribute_dict)"

definition render_hybrid_properties ::
  "model \<Rightarrow> (pyobj \<Rightarrow> py_error + bool) \<Rightarrow> py_error + (string, string) dict" where
  "render_hybrid_properties m is_valid =
     (let hybrid_properties = filter is_hybrid_property (all_orm_descriptors m)
      in render_hybrid_properties_loop hybrid_properties is_valid [])"

text \<open>
  \<^verbatim>\<open>
  def render_association_proxies(self, model, attribute_dict, foreign_keys):
      proxies = {}
      for k in list(model.__dict__.keys()):
          v = model.__dict__[k]
          is_proxy = isinstance(v, AssociationProxy)
          if is_proxy and hasattr(v.__get__(None, model).remote_attr, 'property'):
              proxies[k] = v.__get__(None, model)

      for name, attr in proxies.items():
          if isinstance(attr.remote_attr.property, RelationshipProperty):
              remote_class = get_related_association_proxy_model(attr)
              foreign_keys[name] = {
                  'foreign_model': remote_class.__name__,
                  'relation_type': 'MANYTOONE' if attr.scalar else 'ONETOMANY',
                  'is_proxy': True
              }
          elif isinstance(attr.remote_attr.property, ColumnProperty):
              column = attr.remote_attr.property.columns[0]
              attribute_dict[name] = column.type.__class__.__name__.lower()
  \<close>
  A proxy kept in \<open>proxies\<close> has a remote property; it is stored as that property and
  its \<open>scalar\<close> flag. The method mutates both dictionaries it is given: the model
  returns them.
\<close>

fun collect_proxies ::
  "(string \<times> class_attr) list \<Rightarrow> (string, property \<times> bool) dict
     \<Rightarrow> (string, property \<times> bool) dict" where
  "collect_proxies [] proxies = proxies"
| "collect_proxies ((k, v) # rest) proxies =
     (case v of
        AssociationProxy p \<Rightarrow>
          (case remote_property p of
             Some prop \<Rightarrow> collect_proxies rest (AList.update k (prop, proxy_scalar p) proxies)
           | None \<Rightarrow> collect_proxies rest proxies)
      | OtherAttr \<Rightarrow> collect_proxies rest proxies)"

fun render_proxies_loop ::
  "(string \<times> property \<times> bool) list \<Rightarrow> (string, string) dict \<Rightarrow> (string, descriptor) dict
     \<Rightarrow> (string, string) dict \<times> (string, descriptor) dict" where
  "render_proxies_loop [] attribute_dict foreign_keys = (attribute_dict, foreign_keys)"
| "render_proxies_loop ((name, prop, scalar) # rest) attribute_dict foreign_keys =
     (case prop of
        RelationshipProperty remote_class \<Rightarrow>
          render_proxies_loop rest attribute_dict
            (AList.update name
               [(''foreign_model'', PStr remote_class),
                (''relation_type'', PStr (if scalar then ''MANYTOONE'' else ''ONETOMANY'')),
                (''is_proxy'', PBool True)]
               foreign_keys)
      | ColumnProperty ctype \<Rightarrow>
          render_proxies_loop rest (AList.update name (str_lower ctype) attribute_dict) foreign_keys
      | OtherProperty \<Rightarrow> render_proxies_loop rest attribute_dict foreign_keys)"

definition render_association_proxies ::
  "model \<Rightarrow> (string, string) dict \<Rightarrow> (string, descriptor) dict
     \<Rightarrow> (string, string) dict \<times> (string, descriptor) dict" where
  "render_association_proxies m attribute_dict foreign_keys =
     (let proxies = collect_proxies (class_dict m) []
      in render_proxies_loop proxies attribute_dict foreign_keys)"

text \<open>
  \<^verbatim>\<open>
  def render(self, model, collection_name, bp_name, included, excluded):
      is_valid = get_is_valid_validator(included, excluded)
      attribute_dict = self.render_attributes(model, is_valid)
      foreign_keys = self.render_relations(model, is_valid)
      attribute_dict.update(self.render_hybrid_properties(model, is_valid))
      self.render_association_proxies(model, attribute_dict, foreign_keys)
      with self.app.app_context():
          pk_name = primary_key_name(model)
      register_serializer(model, pk_name)
      return {
          'pk_name': pk_name,
          'collection_name': collection_name,
          'attributes': attribute_dict,
          'relations': foreign_keys,
      }
  \<close>
  \<open>register_serializer\<close> acts on the application only. The descriptor returned has no
  \<open>methods\<close> and no \<open>polymorphic\<close> key yet.
\<close>

definition ClassDefinitionRenderer_render :: "model \<Rightarrow> kwargs \<Rightarrow> py_error + model_descriptor" where
  "ClassDefinitionRenderer_render m kw =
     (let is_valid = get_is_valid_validator (kw_included kw) (kw_excluded kw) in
      case render_attributes m is_valid of
        Inl e \<Rightarrow> Inl e
      | Inr attribute_dict \<Rightarrow>
     (case render_relations m is_valid of
        Inl e \<Rightarrow> Inl e
      | Inr foreign_keys \<Rightarrow>
     (case render_hybrid_properties m is_valid of
        Inl e \<Rightarrow> Inl e
      | Inr hybrids \<Rightarrow>
          (let attribute_dict = dict_update attribute_dict hybrids;
               (attribute_dict, foreign_keys) =
                  render_association_proxies m attribute_dict foreign_keys
           in Inr \<lparr>pk_name = primary_key_name m,
                    collection_name = kw_collection_name kw,
                    attributes = attribute_dict,
                    relations = foreign_keys,
                    methods = None,
                    polymorphic = None\<rparr>))))"

section \<open>\<open>MethodDefinitionRenderer\<close>\<close>

text \<open>
  \<^verbatim>\<open>
  def compile_method_list(self, model):
      methods = {}
      include_internal = self.options.get('include_model_internal_functions', False)
      for name, fn in inspect.getmembers(model, predicate=inspect.isfunction):
          if name.startswith('__'):
              continue
          if name.startswith('_') and not include_internal:
              continue
          spec = inspect.signature(fn)
          required = []
          optional = []
          argsvar = None
          kwargsvar = None
          for param_name, param in spec.parameters.items():
              if param_name == 'self':
                  continue
              if param.kind == param.VAR_KEYWORD:
                  kwargsvar = param_name
              elif param.kind == param.VAR_POSITIONAL:
                  argsvar = param_name
              elif param.default == param.empty:
                  required.append(param_name)
              else:
                  optional.append(param_name)
          methods[name] = {
              'args': required,
              'kwargs': optional,
              'argsvar': argsvar,
              'kwargsvar': kwargsvar,
          }
      return methods
  \<close>
  The inner loop carries \<open>(required, optional, argsvar, kwargsvar)\<close>.
\<close>

fun classify_parameters ::
  "parameter list \<Rightarrow> string list \<times> string list \<times> string option \<times> string option
     \<Rightarrow> string list \<times> string list \<times> string option \<times> string option" where
  "classify_parameters [] st = st"
| "classify_parameters (p # ps) (required, optional, argsvar, kwargsvar) =
     (if param_name p = ''self'' then
        classify_parameters ps (required, optional, argsvar, kwargsvar)
      else if param_kind p = VAR_KEYWORD then
        classify_parameters ps (required, optional, argsvar, Some (param_name p))
      else if param_kind p = VAR_POSITIONAL then
        classify_parameters ps (required, optional, Some (param_name p), kwargsvar)
      else if \<not> param_has_default p then
        classify_parameters ps (required @ [param_name p], optional, argsvar, kwargsvar)
      else
        classify_parameters ps (required, optional @ [param_name p], argsvar, kwargsvar))"

definition method_descriptor :: "parameter list \<Rightarrow> descriptor" where
  "method_descriptor params =
     (case classify_parameters params ([], [], None, None) of
        (required, optional, argsvar, kwargsvar) \<Rightarrow>
          [(''args'', PList required),
           (''kwargs'', PList optional),
           (''argsvar'', none_or_str argsvar),
           (''kwargsvar'', none_or_str kwargsvar)])"

fun compile_method_list_loop ::
  "bool \<Rightarrow> (string \<times> parameter list) list \<Rightarrow> (string, descriptor) dict
     \<Rightarrow> (string, descriptor) dict" where
  "compile_method_list_loop include_internal [] meths = meths"
| "compile_method_list_loop include_internal ((name, params) # rest) meths =
     (if startswith name ''__'' then compile_method_list_loop include_internal rest meths
      else if startswith name ''_'' \<and> \<not> include_internal then
        compile_method_list_loop include_internal rest meths
      else
        compile_method_list_loop include_internal rest
          (AList.update name (method_descriptor params) meths))"

definition compile_method_list :: "(string, bool) dict \<Rightarrow> model \<Rightarrow> (string, descriptor) dict" where
  "compile_method_list options m =
     (let include_internal =
            (case map_of options ''include_model_internal_functions'' of
               None \<Rightarrow> False
             | Some b \<Rightarrow> b)
      in compile_method_list_loop include_internal (member_functions m) [])"

text \<open>
  \<^verbatim>\<open>
  def render(self, model, collection_name):
      name = model.__name__
      self.methods[name] = self.compile_method_list(model)
      self.add_method_endpoints(collection_name, model, self.methods[name])
  \<close>
  \<open>add_method_endpoints\<close> registers URL rules on the application only; the state of
  the renderer is its \<open>methods\<close> dictionary.
\<close>

definition MethodDefinitionRenderer_render ::
  "(string, bool) dict \<Rightarrow> (string, (string, descriptor) dict) dict \<Rightarrow> model
     \<Rightarrow> (string, (string, descriptor) dict) dict" where
  "MethodDefinitionRenderer_render options methods_state m =
     AList.update (model_name m) (compile_method_list options m) methods_state"

section \<open>\<open>DataModelRenderer\<close>\<close>

text \<open>
  \<^verbatim>\<open>
  def flag_inheritance_models(self, model):
      is_polymorphic = (hasattr(model, '__mapper_args__') and
                        'polymorphic_identity' in model.__mapper_args__)
      if is_polymorphic:
          parent = None
          for kls in model.__bases__:
              if issubclass(kls, self.db.Model) and kls is not self.db.Model:
                  parent = kls
          if parent:
              on = parent.__mapper_args__['polymorphic_on']
              if not isinstance(on, str):
                  on = on.key
              return {
                  'on': on,
                  'parent': parent.__name__,
                  'identity': model.__mapper_args__['polymorphic_identity'],
              }
  \<close>
  The function returns \<open>None\<close> when it falls through. A parent class without
  \<open>__mapper_args__\<close> raises \<open>AttributeError\<close>, one without the key \<open>polymorphic_on\<close>
  raises \<open>KeyError\<close>.
\<close>

record inheritance =
  inh_on :: string
  inh_parent :: string
  inh_identity :: string

definition find_parent :: "kls list \<Rightarrow> kls option" where
  "find_parent bases =
     fold (\<lambda>kls parent. if kls_is_model_subclass kls \<and> \<not> kls_is_db_model kls
                         then Some kls else parent) bases None"

definition flag_inheritance_models :: "model \<Rightarrow> py_error + inheritance option" where
  "flag_inheritance_models m =
     (case model_mapper_args m of
        None \<Rightarrow> Inr None
      | Some args \<Rightarrow>
     (case polymorphic_identity args of
        None \<Rightarrow> Inr None
      | Some identity \<Rightarrow>
     (case find_parent (model_bases m) of
        None \<Rightarrow> Inr None
      | Some parent \<Rightarrow>
     (case kls_mapper_args parent of
        None \<Rightarrow> Inl AttributeError
      | Some parent_args \<Rightarrow>
     (case polymorphic_on parent_args of
        None \<Rightarrow> Inl KeyError
      | Some on \<Rightarrow>
          Inr (Some \<lparr>inh_on = (case on of OnStr s \<Rightarrow> s | OnColumn key \<Rightarrow> key),
                     inh_parent = kls_name parent,
                     inh_identity = identity\<rparr>))))))"

text \<open>
  \<^verbatim>\<open>
  def resolve_inheritance(self, model, inheriting_from, data_model):
      idef = data_model[inheriting_from['parent']]
      odef = data_model[model]
      odef['attributes'].update(idef['attributes'])
      odef['relations'].update(idef['relations'])
      odef['polymorphic'] = {'parent': inheriting_from['parent']}
      idef.setdefault('polymorphic', {})['on'] = inheriting_from['on']
      idef['polymorphic'].setdefault(
          'identities', {})[inheriting_from['identity']] = model
  \<close>
  \<open>idef\<close> and \<open>odef\<close> are references into \<open>data_model\<close>: the child's entry is written
  back first, and when parent and child are the same name the parent's entry is the
  descriptor just written.
\<close>

definition resolve_inheritance ::
  "string \<Rightarrow> inheritance \<Rightarrow> data_model \<Rightarrow> py_error + data_model" where
  "resolve_inheritance model_n inheriting_from dm =
     (case getitem dm (inh_parent inheriting_from) of
        Inl e \<Rightarrow> Inl e
      | Inr idef \<Rightarrow>
     (case getitem dm model_n of
        Inl e \<Rightarrow> Inl e
      | Inr odef \<Rightarrow>
          (let odef = odef\<lparr>attributes := dict_update (attributes odef) (attributes idef),
                           relations := dict_update (relations odef) (relations idef),
                           polymorphic := Some \<lparr>poly_parent = Some (inh_parent inheriting_from),
                                                 poly_on = None,
                                                 poly_identities = None\<rparr>\<rparr>;
               dm = AList.update model_n odef dm;
               idef = (if inh_parent inheriting_from = model_n then odef else idef);
               p = (case polymorphic idef of
                      None \<Rightarrow> \<lparr>poly_parent = None, poly_on = None, poly_identities = None\<rparr>
                    | Some p \<Rightarrow> p);
               p = p\<lparr>poly_on := Some (inh_on inheriting_from)\<rparr>;
               identities = (case poly_identities p of None \<Rightarrow> [] | Some i \<Rightarrow> i);
               p = p\<lparr>poly_identities :=
                       Some (AList.update (inh_identity inheriting_from) model_n identities)\<rparr>;
               idef = idef\<lparr>polymorphic := Some p\<rparr>
           in Inr (AList.update (inh_parent inheriting_from) idef dm))))"

text \<open>
  \<^verbatim>\<open>
  def render(self, models, method_renderer):
      data_model = {}
      flagged_for_inheritence = {}
      model_renderer = ClassDefinitionRenderer(self.app)

      for model, kwargs in models.items():
          name = model.__name__
          model_render = model_renderer.render(model, **kwargs)
          model_render['methods'] = method_renderer.methods[name]
          polymorphic_info = self.flag_inheritance_models(model)
          if polymorphic_info:
              flagged_for_inheritence[name] = polymorphic_info
          data_model[name] = model_render

      # update child models with the attributes and relations of their parent
      for model, inheriting_from in flagged_for_inheritence.items():
          self.resolve_inheritance(model, inheriting_from, data_model)
      return data_model
  \<close>
  \<open>models\<close> is a dictionary keyed by model class: its items are a list of pairs, in
  insertion order. \<open>method_renderer.methods\<close> is the dictionary the method renderer filled.
\<close>

fun render_models_loop ::
  "(model \<times> kwargs) list \<Rightarrow> (string, (string, descriptor) dict) dict
     \<Rightarrow> data_model \<times> (string, inheritance) dict
     \<Rightarrow> py_error + data_model \<times> (string, inheritance) dict" where
  "render_models_loop [] method_renderer_methods (dm, flagged_for_inheritence) =
     Inr (dm, flagged_for_inheritence)"
| "render_models_loop ((m, kw) # rest) method_renderer_methods (dm, flagged_for_inheritence) =
     (case ClassDefinitionRenderer_render m kw of
        Inl e \<Rightarrow> Inl e
      | Inr model_render \<Rightarrow>
     (case getitem method_renderer_methods (model_name m) of
        Inl e \<Rightarrow> Inl e
      | Inr ms \<Rightarrow>
     (case flag_inheritance_models m of
        Inl e \<Rightarrow> Inl e
      | Inr polymorphic_info \<Rightarrow>
          render_models_loop rest method_renderer_methods
            (AList.update (model_name m) (model_render\<lparr>methods := Some ms\<rparr>) dm,
             (case polymorphic_info of
                Some info \<Rightarrow> AList.update (model_name m) info flagged_for_inheritence
              | None \<Rightarrow> flagged_for_inheritence)))))"

fun resolve_loop :: "(string \<times> inheritance) list \<Rightarrow> data_model \<Rightarrow> py_error + data_model" where
  "resolve_loop [] dm = Inr dm"
| "resolve_loop ((model_n, inheriting_from) # rest) dm =
     (case resolve_inheritance model_n inheriting_from dm of
        Inl e \<Rightarrow> Inl e
      | Inr dm' \<Rightarrow> resolve_loop rest dm')"

definition DataModelRenderer_render ::
  "(model \<times> kwargs) list \<Rightarrow> (string, (string, descriptor) dict) dict \<Rightarrow> py_error + data_model" where
  "DataModelRenderer_render models method_renderer_methods =
     (case render_models_loop models method_renderer_methods ([], []) of
        Inl e \<Rightarrow> Inl e
      | Inr (dm, flagged_for_inheritence) \<Rightarrow> resolve_loop flagged_for_inheritence dm)"

section \<open>\<open>DataModel\<close>\<close>

text \<open>
  \<^verbatim>\<open>
  def __init__(self, api_manager, **options):
      ...
      self.data_model = {}
      self.polymorphic_info = defaultdict(dict)
      self.options = options
      self.model_renderer = None
      self.app = None
  \<close>
  The state of a \<open>DataModel\<close> object that registration reads and writes: the schema
  \<open>data_model\<close>, the registry \<open>polymorphic_info\<close> from model name to a dictionary from
  identity to model name, and \<open>model_renderer\<close>, which is \<open>None\<close> until \<open>init\<close> has
  assigned a \<open>DataModelRenderer\<close>.
\<close>

datatype DataModelRenderer = Renderer

record DataModel =
  data_model :: "(string, model_descriptor) dict"
  polymorphic_info :: "(string, (string, string) dict) dict"
  model_renderer :: "DataModelRenderer option"

definition DataModel_new :: DataModel where
  "DataModel_new = \<lparr>data_model = [], polymorphic_info = [], model_renderer = None\<rparr>"

text \<open>
  \<^verbatim>\<open>
  class DataModelRenderer:
      def __init__(self, app, db):
          self.app = app
          self.db = db
  \<close>
  A constructor call with a number of positional arguments other than two raises
  \<open>TypeError\<close>.
\<close>

definition DataModelRenderer_new :: "nat \<Rightarrow> py_error + DataModelRenderer" where
  "DataModelRenderer_new nargs = (if nargs = 2 then Inr Renderer else Inl TypeError)"

text \<open>
  \<open>DataModelRenderer.render(self, models, method_renderer)\<close> as \<open>register_model\<close> calls
  it, with a model class for \<open>models\<close> and the keyword arguments for
  \<open>method_renderer\<close>: the loop header \<open>for model, kwargs in models.items()\<close> is the first
  statement to read \<open>models\<close>, and a model class has no attribute \<open>items\<close>.
\<close>

definition DataModelRenderer_render_model :: "model \<Rightarrow> kwargs \<Rightarrow> py_error + data_model" where
  "DataModelRenderer_render_model m kw = Inl AttributeError"

text \<open>
  \<^verbatim>\<open>
  def register_model(self, model, api_info, app):
      name = model.__name__
      kwargs = self.get_restless_model_conf(model, api_info, app)
      render = self.model_renderer.render(model, kwargs)

      polymorphic_info = self.model_renderer.render_polymorphic(
          model, self.polymorphic_info[name])

      if 'parent' in polymorphic_info:
          parent = polymorphic_info['parent']
          identity = polymorphic_info['identity']
          self.polymorphic_info[parent][identity] = name

      if polymorphic_info:
          render['polymorphic'] = polymorphic_info

      self.data_model[name] = render
  \<close>
  \<open>get_restless_model_conf\<close> asks the web framework for the configuration of the model:
  the keyword arguments are an input here. With \<open>model_renderer\<close> still \<open>None\<close>,
  \<open>self.model_renderer.render\<close> raises \<open>AttributeError\<close>. With a renderer, the call of
  \<open>render\<close> is the one above; and \<open>DataModelRenderer\<close> has no method
  \<open>render_polymorphic\<close>, so that reading it raises \<open>AttributeError\<close> too. The statements
  after it are never reached. Nothing is written to the object before an exception
  leaves the method.
\<close>

definition register_model :: "DataModel \<Rightarrow> model \<Rightarrow> kwargs \<Rightarrow> py_error + DataModel" where
  "register_model self m kw =
     (case model_renderer self of
        None \<Rightarrow> Inl AttributeError
      | Some renderer \<Rightarrow>
          (case DataModelRenderer_render_model m kw of
             Inl e \<Rightarrow> Inl e
           | Inr render \<Rightarrow> Inl AttributeError))"

text \<open>
  \<^verbatim>\<open>
  def init(self, app):
      db = self.api_manager.flask_sqlalchemy_db
      self.model_renderer = DataModelRenderer(app, db, self.options)
      for model, api_info in self.api_manager.created_apis_for.items():
          self.register_model(model, api_info, app)
  \<close>
  The constructor is called with three arguments; the assignment and the loop come
  after it.
\<close>

fun register_models :: "DataModel \<Rightarrow> (model \<times> kwargs) list \<Rightarrow> py_error + DataModel" where
  "register_models self [] = Inr self"
| "register_models self ((m, kw) # rest) =
     (case register_model self m kw of
        Inl e \<Rightarrow> Inl e
      | Inr self' \<Rightarrow> register_models self' rest)"

definition DataModel_init :: "DataModel \<Rightarrow> (model \<times> kwargs) list \<Rightarrow> py_error + DataModel" where
  "DataModel_init self created_apis_for =
     (case DataModelRenderer_new 3 of
        Inl e \<Rightarrow> Inl e
      | Inr renderer \<Rightarrow>
          register_models (self\<lparr>model_renderer := Some renderer\<rparr>) created_apis_for)"

section \<open>Notions used in the statements\<close>

text \<open>
  The names under which a model's metadata yields scalar fields (column names, names of
  hybrid properties, proxies onto a column) and relational fields (relationship keys,
  proxies onto a relationship), and the items \<open>flagged_for_inheritence\<close> receives from a
  list of models.
\<close>

fun is_column_property :: "property \<Rightarrow> bool" where
  "is_column_property (ColumnProperty _) = True"
| "is_column_property _ = False"

fun is_relationship_property :: "property \<Rightarrow> bool" where
  "is_relationship_property (RelationshipProperty _) = True"
| "is_relationship_property _ = False"

fun proxy_names :: "(property \<Rightarrow> bool) \<Rightarrow> (string \<times> class_attr) list \<Rightarrow> string list" where
  "proxy_names P [] = []"
| "proxy_names P ((k, OtherAttr) # rest) = proxy_names P rest"
| "proxy_names P ((k, AssociationProxy p) # rest) =
     (case remote_property p of
        Some pr \<Rightarrow> if P pr then k # proxy_names P rest else proxy_names P rest
      | None \<Rightarrow> proxy_names P rest)"

fun hybrid_names :: "pyobj list \<Rightarrow> string list" where
  "hybrid_names [] = []"
| "hybrid_names (HybridProperty n # rest) = n # hybrid_names rest"
| "hybrid_names (_ # rest) = hybrid_names rest"

definition attribute_names :: "model \<Rightarrow> string list" where
  "attribute_names m =
     map col_name (table_columns m) @ hybrid_names (all_orm_descriptors m)
       @ proxy_names is_column_property (class_dict m)"

definition relation_names :: "model \<Rightarrow> string list" where
  "relation_names m = map rel_key (relationships m) @ proxy_names is_relationship_property (class_dict m)"

fun flagged_items :: "(model \<times> kwargs) list \<Rightarrow> (string \<times> inheritance) list" where
  "flagged_items [] = []"
| "flagged_items ((m, kw) # rest) =
     (case flag_inheritance_models m of
        Inr (Some info) \<Rightarrow> (model_name m, info) # flagged_items rest
      | _ \<Rightarrow> flagged_items rest)"

text \<open>
  The dictionary \<open>flagged_for_inheritence\<close> as the first loop of
  \<open>DataModelRenderer.render\<close> leaves it, whatever the model names are; the names of the
  models whose rendered fields the second loop stores into the descriptor of a name
  (the model itself, and with each \<open>resolve_inheritance\<close> what its parent holds at that
  moment); and the fields that the models of given names have.
\<close>

fun flagged_for_inheritence ::
  "(model \<times> kwargs) list \<Rightarrow> (string, inheritance) dict \<Rightarrow> (string, inheritance) dict" where
  "flagged_for_inheritence [] fl = fl"
| "flagged_for_inheritence ((m, kw) # rest) fl =
     flagged_for_inheritence rest
       (case flag_inheritance_models m of
          Inr (Some info) \<Rightarrow> AList.update (model_name m) info fl
        | _ \<Rightarrow> fl)"

fun merged_into ::
  "(string \<times> inheritance) list \<Rightarrow> (string \<Rightarrow> string list) \<Rightarrow> string \<Rightarrow> string list" where
  "merged_into [] sources n = sources n"
| "merged_into ((child, inheriting_from) # rest) sources n =
     merged_into rest
       (sources(child := sources child @ sources (inh_parent inheriting_from))) n"

definition merged_models :: "(model \<times> kwargs) list \<Rightarrow> string \<Rightarrow> string list" where
  "merged_models models n = merged_into (flagged_for_inheritence models []) (\<lambda>n. [n]) n"

definition fields_named ::
  "(model \<Rightarrow> string list) \<Rightarrow> (model \<times> kwargs) list \<Rightarrow> string list \<Rightarrow> string list" where
  "fields_named f models names =
     concat (map (\<lambda>(m, kw). if model_name m \<in> set names then f m else []) models)"

section \<open>Example models\<close>

text \<open>Concrete metadata on which the theorems below are instantiated.\<close>

definition ex_kwargs :: kwargs where
  "ex_kwargs = \<lparr>kw_collection_name = ''items'', kw_bp_name = ''api'',
                 kw_included = [], kw_excluded = []\<rparr>"

definition db_Model :: kls where
  "db_Model = \<lparr>kls_name = ''Model'', kls_is_model_subclass = True, kls_is_db_model = True,
               kls_mapper_args = None\<rparr>"

definition plain_model :: "string \<Rightarrow> column list \<Rightarrow> model" where
  "plain_model n cols =
     \<lparr>model_name = n, model_bases = [db_Model], model_mapper_args = None,
      table_columns = cols, relationships = [], all_orm_descriptors = [OtherDescriptor],
      class_dict = [(''__tablename__'', OtherAttr)], primary_key_name = ''id'',
      member_functions = []\<rparr>"

text \<open>A user with a scalar one-to-many relation, a many-to-one relation, two association
  proxies and two methods.\<close>

definition ex_profile_rel :: relationship where
  "ex_profile_rel = \<lparr>rel_key = ''profile'', rel_direction = ONETOMANY, rel_uselist = False,
      rel_class = ''Profile'', rel_back_populates = None, rel_local_columns = [''id'']\<rparr>"

definition ex_group_rel :: relationship where
  "ex_group_rel = \<lparr>rel_key = ''group'', rel_direction = MANYTOONE, rel_uselist = False,
      rel_class = ''Group'', rel_back_populates = Some ''users'',
      rel_local_columns = [''group_id'']\<rparr>"

definition ex_tags_proxy :: association_proxy where
  "ex_tags_proxy = \<lparr>remote_property = Some (RelationshipProperty ''Tag''), proxy_scalar = False\<rparr>"

definition ex_group_name_proxy :: association_proxy where
  "ex_group_name_proxy = \<lparr>remote_property = Some (ColumnProperty ''String''), proxy_scalar = True\<rparr>"

definition ex_rename_params :: "parameter list" where
  "ex_rename_params =
     [\<lparr>param_name = ''self'', param_kind = POSITIONAL_OR_KEYWORD, param_has_default = False\<rparr>,
      \<lparr>param_name = ''new_name'', param_kind = POSITIONAL_OR_KEYWORD, param_has_default = False\<rparr>,
      \<lparr>param_name = ''notify'', param_kind = POSITIONAL_OR_KEYWORD, param_has_default = True\<rparr>]"

definition ex_user :: model where
  "ex_user = (plain_model ''User''
       [\<lparr>col_name = ''id'', col_type = ''Integer''\<rparr>,
        \<lparr>col_name = ''group_id'', col_type = ''Integer''\<rparr>])
     \<lparr>relationships := [ex_profile_rel, ex_group_rel],
      class_dict := [(''__tablename__'', OtherAttr),
                     (''tags'', AssociationProxy ex_tags_proxy),
                     (''group_name'', AssociationProxy ex_group_name_proxy)],
      member_functions := [(''rename'', ex_rename_params)]\<rparr>"

text \<open>A person with a hybrid property \<open>full_name\<close>.\<close>

definition ex_person :: model where
  "ex_person = (plain_model ''Person'' [\<lparr>col_name = ''id'', col_type = ''Integer''\<rparr>])
     \<lparr>all_orm_descriptors := [OtherDescriptor, HybridProperty ''full_name'']\<rparr>"

text \<open>
  A joined-table hierarchy \<open>Animal\<close>, \<open>Dog\<close>, \<open>Puppy\<close>: each class has a table of its own
  and names its direct superclass among its bases. \<open>Animal\<close> and \<open>Dog\<close> both have a
  column \<open>code\<close>, of different types.
\<close>

definition animal_args :: mapper_args where
  "animal_args = \<lparr>polymorphic_identity = Some ''animal'', polymorphic_on = Some (OnStr ''type'')\<rparr>"

definition ex_animal :: model where
  "ex_animal = (plain_model ''Animal''
       [\<lparr>col_name = ''id'', col_type = ''Integer''\<rparr>,
        \<lparr>col_name = ''type'', col_type = ''String''\<rparr>,
        \<lparr>col_name = ''code'', col_type = ''Integer''\<rparr>])
     \<lparr>model_mapper_args := Some animal_args\<rparr>"

definition animal_kls :: kls where
  "animal_kls = \<lparr>kls_name = ''Animal'', kls_is_model_subclass = True, kls_is_db_model = False,
                 kls_mapper_args = Some animal_args\<rparr>"

definition dog_args :: mapper_args where
  "dog_args = \<lparr>polymorphic_identity = Some ''dog'', polymorphic_on = Some (OnStr ''type'')\<rparr>"

definition ex_dog :: model where
  "ex_dog = (plain_model ''Dog''
       [\<lparr>col_name = ''id'', col_type = ''Integer''\<rparr>,
        \<lparr>col_name = ''code'', col_type = ''String''\<rparr>])
     \<lparr>model_bases := [animal_kls], model_mapper_args := Some dog_args\<rparr>"

definition dog_kls :: kls where
  "dog_kls = \<lparr>kls_name = ''Dog'', kls_is_model_subclass = True, kls_is_db_model = False,
              kls_mapper_args = Some dog_args\<rparr>"

definition ex_puppy :: model where
  "ex_puppy = (plain_model ''Puppy''
       [\<lparr>col_name = ''id'', col_type = ''Integer''\<rparr>,
        \<lparr>col_name = ''toy'', col_type = ''String''\<rparr>])
     \<lparr>model_bases := [dog_kls],
      model_mapper_args := Some \<lparr>polymorphic_identity = Some ''puppy'',
                                  polymorphic_on = Some (OnStr ''type'')\<rparr>\<rparr>"

definition ex_methods :: "(string, (string, descriptor) dict) dict" where
  "ex_methods = [(''Animal'', []), (''Dog'', []), (''Puppy'', []), (''User'', []),
                 (''Pet'', [])]"

text \<open>A model whose column \<open>owner\<close> (mapped to the attribute \<open>owner_id\<close>) has the name of
  its relationship \<open>owner\<close>.\<close>

definition ex_pet :: model where
  "ex_pet = (plain_model ''Pet''
       [\<lparr>col_name = ''id'', col_type = ''Integer''\<rparr>,
        \<lparr>col_name = ''owner'', col_type = ''Integer''\<rparr>])
     \<lparr>relationships := [\<lparr>rel_key = ''owner'', rel_direction = MANYTOONE, rel_uselist = False,
          rel_class = ''Person'', rel_back_populates = None, rel_local_columns = [''owner'']\<rparr>]\<rparr>"

text \<open>
  A hierarchy with relationships: \<open>Vehicle\<close> has the relationship \<open>owner\<close> and its
  subclass \<open>Car\<close> (a table of its own) the relationship \<open>garage\<close>. \<open>Book\<close> is no part
  of the hierarchy and has a column \<open>owner\<close>.
\<close>

definition vehicle_args :: mapper_args where
  "vehicle_args = \<lparr>polymorphic_identity = Some ''vehicle'',
                    polymorphic_on = Some (OnStr ''type'')\<rparr>"

definition ex_vehicle :: model where
  "ex_vehicle = (plain_model ''Vehicle''
       [\<lparr>col_name = ''id'', col_type = ''Integer''\<rparr>,
        \<lparr>col_name = ''type'', col_type = ''String''\<rparr>,
        \<lparr>col_name = ''owner_id'', col_type = ''Integer''\<rparr>])
     \<lparr>model_mapper_args := Some vehicle_args,
      relationships := [\<lparr>rel_key = ''owner'', rel_direction = MANYTOONE, rel_uselist = False,
          rel_class = ''Person'', rel_back_populates = None,
          rel_local_columns = [''owner_id'']\<rparr>]\<rparr>"

definition vehicle_kls :: kls where
  "vehicle_kls = \<lparr>kls_name = ''Vehicle'', kls_is_model_subclass = True,
                  kls_is_db_model = False, kls_mapper_args = Some vehicle_args\<rparr>"

definition ex_car :: model where
  "ex_car = (plain_model ''Car''
       [\<lparr>col_name = ''id'', col_type = ''Integer''\<rparr>,
        \<lparr>col_name = ''garage_id'', col_type = ''Integer''\<rparr>])
     \<lparr>model_bases := [vehicle_kls],
      model_mapper_args := Some \<lparr>polymorphic_identity = Some ''car'',
                                  polymorphic_on = Some (OnStr ''type'')\<rparr>,
      relationships := [\<lparr>rel_key = ''garage'', rel_direction = MANYTOONE, rel_uselist = False,
          rel_class = ''Garage'', rel_back_populates = Some ''cars'',
          rel_local_columns = [''garage_id'']\<rparr>]\<rparr>"

definition ex_book :: model where
  "ex_book = plain_model ''Book''
       [\<lparr>col_name = ''id'', col_type = ''Integer''\<rparr>,
        \<lparr>col_name = ''owner'', col_type = ''String''\<rparr>]"

definition ex_vehicle_methods :: "(string, (string, descriptor) dict) dict" where
  "ex_vehicle_methods = [(''Vehicle'', []), (''Car'', []), (''Book'', [])]"

text \<open>The rendered descriptors of \<open>Animal\<close> and \<open>Dog\<close>, as the first loop of
  \<open>DataModelRenderer.render\<close> stores them, and the inheritance flagged for \<open>Dog\<close>.\<close>

definition animal_descriptor :: model_descriptor where
  "animal_descriptor =
     \<lparr>pk_name = ''id'', collection_name = ''items'',
      attributes = [(''id'', ''integer''), (''type'', ''string''), (''code'', ''integer'')],
      relations = [], methods = Some [], polymorphic = None\<rparr>"

definition dog_descriptor :: model_descriptor where
  "dog_descriptor =
     \<lparr>pk_name = ''id'', collection_name = ''items'',
      attributes = [(''id'', ''integer''), (''code'', ''string'')],
      relations = [], methods = Some [], polymorphic = None\<rparr>"

definition dog_inheritance :: inheritance where
  "dog_inheritance = \<lparr>inh_on = ''type'', inh_parent = ''Animal'', inh_identity = ''dog''\<rparr>"

section \<open>Properties\<close>

subsection \<open>Dictionaries and strings\<close>

lemma map_of_dict_update_rev:
  "map_of (dict_update d other) = map_of d ++ map_of (rev other)"
  unfolding dict_update_def
proof (induction other arbitrary: d)
  case Nil
  show ?case by simp
next
  case (Cons x other)
  obtain k v where x: "x = (k, v)" by (cases x)
  have "map_of (fold (\<lambda>(k, v). AList.update k v) other (AList.update k v d))
          = map_of (AList.update k v d) ++ map_of (rev other)"
    using Cons.IH [of "AList.update k v d"] .
  also have "\<dots> = (map_of d)(k \<mapsto> v) ++ map_of (rev other)"
    by (simp only: update_conv')
  also have "\<dots> = map_of d ++ (map_of (rev other @ [(k, v)]))"
    by (simp add: fun_eq_iff map_add_def split: option.splits)
  finally show ?case by (simp add: x)
qed

lemma map_of_rev_distinct: "distinct (map fst xs) \<Longrightarrow> map_of (rev xs) = map_of xs"
proof (induction xs)
  case Nil
  show ?case by simp
next
  case (Cons x xs)
  obtain k v where x: "x = (k, v)" by (cases x)
  from Cons.prems have k: "k \<notin> dom (map_of xs)" and d: "distinct (map fst xs)"
    by (auto simp: x dom_map_of_conv_image_fst)
  have "map_of (rev (x # xs)) = [k \<mapsto> v] ++ map_of xs"
    using Cons.IH [OF d] by (simp add: x)
  also have "\<dots> = map_of xs ++ [k \<mapsto> v]"
    using k by (intro map_add_comm) auto
  finally show ?case by (simp add: x)
qed

lemma map_of_dict_update:
  "distinct (map fst other) \<Longrightarrow> map_of (dict_update d other) = map_of d ++ map_of other"
  by (simp add: map_of_dict_update_rev map_of_rev_distinct)

lemma keys_dict_update: "keys (dict_update d other) = keys d \<union> keys other"
proof -
  have "dom (map_of (dict_update d other)) = dom (map_of d) \<union> dom (map_of (rev other))"
    by (simp add: map_of_dict_update_rev Un_commute)
  then show ?thesis by (simp add: keys_def dom_map_of_conv_image_fst)
qed

lemma distinct_dict_update:
  "distinct (map fst d) \<Longrightarrow> distinct (map fst (dict_update d other))"
  unfolding dict_update_def
  by (induction other arbitrary: d) (auto simp: distinct_update)

lemma split_acc_nonempty: "split_acc sep cur s \<noteq> []"
  by (induction s arbitrary: cur) auto

lemma last_split_acc:
  "sep \<notin> set cur \<Longrightarrow>
   last (split_acc sep cur s) = rev (takeWhile (\<lambda>c. c \<noteq> sep) (rev s @ cur))"
proof (induction s arbitrary: cur)
  case Nil
  then have "takeWhile (\<lambda>c. c \<noteq> sep) cur = cur"
    by (auto simp: takeWhile_eq_all_conv)
  then show ?case by (simp del: takeWhile_eq_all_conv)
next
  case (Cons c cs)
  show ?case
  proof (cases "c = sep")
    case True
    have "last (split_acc sep cur (c # cs)) = last (split_acc sep [] cs)"
      using True by (simp add: split_acc_nonempty)
    also have "\<dots> = rev (takeWhile (\<lambda>c. c \<noteq> sep) (rev cs))"
      using Cons.IH [of "[]"] by simp
    also have "takeWhile (\<lambda>c. c \<noteq> sep) (rev cs)
                 = takeWhile (\<lambda>c. c \<noteq> sep) (rev cs @ sep # cur)"
      by (simp add: takeWhile_append)
    finally show ?thesis using True by simp
  next
    case False
    then show ?thesis using Cons.IH [of "c # cur"] Cons.prems by simp
  qed
qed

lemma last_str_split: "last (str_split s sep) = rev (takeWhile (\<lambda>c. c \<noteq> sep) (rev s))"
  by (simp add: str_split_def last_split_acc)

text \<open>
  C5. For all lists \<open>included\<close>, \<open>excluded\<close> and every name, \<open>is_valid\<close> tests the final
  dot-separated segment of the name only: it returns true iff (\<open>excluded\<close> is empty or the
  segment is not in it) and (\<open>included\<close> is empty or the segment is in it). With both
  empty every name passes, and a name whose segment is in both is rejected.
\<close>

theorem is_valid_final_segment:
  "get_is_valid_validator included excluded (Str name) =
     Inr ((excluded = [] \<or> final_segment name \<notin> set excluded) \<and>
          (included = [] \<or> final_segment name \<in> set included))
   \<and> get_is_valid_validator [] [] (Str name) = Inr True
   \<and> (final_segment name \<in> set included \<and> final_segment name \<in> set excluded \<longrightarrow>
        get_is_valid_validator included excluded (Str name) = Inr False)"
  by (auto simp: get_is_valid_validator_def final_segment_def last_str_split Let_def)

theorem is_valid_final_segment_witness:
  "final_segment ''user.name'' = ''name''
   \<and> get_is_valid_validator [''name'', ''age''] [''name''] (Str ''user.name'') = Inr False
   \<and> get_is_valid_validator [''name'', ''age''] [''email''] (Str ''user.name'') = Inr True
   \<and> get_is_valid_validator [] [] (Str ''user.name'') = Inr True"
  using is_valid_final_segment [of "[''name'', ''age'']" "[''name'']" "''user.name''"]
    is_valid_final_segment [of "[''name'', ''age'']" "[''email'']" "''user.name''"]
    is_valid_final_segment [of "[]" "[]" "''user.name''"]
  by (simp add: final_segment_def)

lemma set_update_subset: "set (AList.update k v al) \<subseteq> insert (k, v) (set al)"
  by (induction al) auto

lemma map_of_update_other: "k' \<noteq> k \<Longrightarrow> map_of (AList.update k v al) k' = map_of al k'"
  by (simp add: update_conv')

lemma map_of_update_same: "map_of (AList.update k v al) k = Some v"
  by (simp add: update_conv')

subsection \<open>Direct relationships\<close>

lemma relation_descriptor_keys:
  assumes "relation_descriptor rel = Inr d"
  shows "map_of d ''relation_type'' =
           Some (PStr (if rel_direction rel = ONETOMANY \<and> \<not> rel_uselist rel then ''ONETOONE''
                       else direction_name (rel_direction rel)))"
    and "map_of d ''backref'' = Some (none_or_str (rel_back_populates rel))"
    and "map_of d ''local_column'' \<noteq> None \<longleftrightarrow> rel_direction rel = MANYTOONE"
    and "map_of d ''is_proxy'' = None"
  using assms
  by (cases "rel_direction rel";
      auto simp: relation_descriptor_def Let_def update_conv' split: list.splits)+

lemma render_relations_loop_other:
  "render_relations_loop rels is_valid fk = Inr fk' \<Longrightarrow> k \<notin> rel_key ` set rels \<Longrightarrow>
   map_of fk' k = map_of fk k"
proof (induction rels arbitrary: fk)
  case Nil
  then show ?case by simp
next
  case (Cons rel rels)
  from Cons.prems(2) have k: "k \<noteq> rel_key rel" "k \<notin> rel_key ` set rels" by auto
  from Cons.prems(1) show ?case
    by (auto split: sum.splits if_splits
             dest!: Cons.IH [OF _ k(2)] simp: map_of_update_other [OF k(1)])
qed

lemma render_relations_loop_entry:
  "render_relations_loop rels is_valid fk = Inr fk' \<Longrightarrow> distinct (map rel_key rels) \<Longrightarrow>
   rel \<in> set rels \<Longrightarrow> is_valid (Str (rel_key rel)) = Inr True \<Longrightarrow>
   \<exists>d. relation_descriptor rel = Inr d \<and> map_of fk' (rel_key rel) = Some d"
proof (induction rels arbitrary: fk)
  case Nil
  then show ?case by simp
next
  case (Cons r rels)
  show ?case
  proof (cases "rel = r")
    case True
    from Cons.prems(2) have notin: "rel_key r \<notin> rel_key ` set rels" by simp
    from Cons.prems(1,4) True obtain d where d: "relation_descriptor r = Inr d"
      and loop: "render_relations_loop rels is_valid (AList.update (rel_key r) d fk) = Inr fk'"
      by (auto split: sum.splits)
    from render_relations_loop_other [OF loop notin]
    have "map_of fk' (rel_key r) = Some d" by (simp add: map_of_update_same)
    with d True show ?thesis by simp
  next
    case False
    with Cons.prems(3) have mem: "rel \<in> set rels" by simp
    from Cons.prems(2) have dist: "distinct (map rel_key rels)" by simp
    from Cons.prems(1) obtain fk1 where "render_relations_loop rels is_valid fk1 = Inr fk'"
      by (auto split: sum.splits if_splits)
    from Cons.IH [OF this dist mem Cons.prems(4)] show ?thesis .
  qed
qed

lemma render_relations_loop_origin:
  "render_relations_loop rels is_valid fk = Inr fk' \<Longrightarrow> (k, d) \<in> set fk' \<Longrightarrow>
   (k, d) \<in> set fk \<or> (\<exists>rel\<in>set rels. k = rel_key rel \<and> relation_descriptor rel = Inr d)"
proof (induction rels arbitrary: fk)
  case Nil
  then show ?case by simp
next
  case (Cons r rels)
  from Cons.prems(1) consider
      (skip) "render_relations_loop rels is_valid fk = Inr fk'"
    | (store) d' where "relation_descriptor r = Inr d'"
        "render_relations_loop rels is_valid (AList.update (rel_key r) d' fk) = Inr fk'"
    by (auto split: sum.splits if_splits)
  then show ?case
  proof cases
    case skip
    from Cons.IH [OF skip Cons.prems(2)] show ?thesis by auto
  next
    case store
    from Cons.IH [OF store(2) Cons.prems(2)] store(1)
      set_update_subset [of "rel_key r" d' fk]
    show ?thesis by auto
  qed
qed

text \<open>
  C4. Every direct relationship that passes the filter is rendered under its key with
  \<open>relation_type\<close> \<open>ONETOONE\<close> when its declared direction is \<open>ONETOMANY\<close> and its remote
  side is scalar (\<open>uselist\<close> false), and with the name of its declared direction
  otherwise. (Relationship keys are unique in a mapper.)
\<close>

theorem render_relations_relation_type:
  assumes "render_relations m is_valid = Inr foreign_keys"
    and "distinct (map rel_key (relationships m))"
    and "rel \<in> set (relationships m)"
    and "is_valid (Str (rel_key rel)) = Inr True"
  shows "\<exists>d. map_of foreign_keys (rel_key rel) = Some d \<and>
             map_of d ''relation_type'' =
               Some (PStr (if rel_direction rel = ONETOMANY \<and> \<not> rel_uselist rel
                           then ''ONETOONE'' else direction_name (rel_direction rel)))"
proof -
  from render_relations_loop_entry [OF assms(1) [unfolded render_relations_def] assms(2-4)]
  obtain d where "relation_descriptor rel = Inr d" "map_of foreign_keys (rel_key rel) = Some d"
    by blast
  with relation_descriptor_keys(1) show ?thesis by blast
qed

lemma ex_user_relations:
  "render_relations ex_user (get_is_valid_validator [] []) =
     Inr [(''profile'',
           [(''foreign_model'', PStr ''Profile''), (''relation_type'', PStr ''ONETOONE''),
            (''backref'', PNone)]),
          (''group'',
           [(''foreign_model'', PStr ''Group''), (''relation_type'', PStr ''MANYTOONE''),
            (''backref'', PStr ''users''), (''local_column'', PStr ''group_id'')])]"
  by (simp add: render_relations_def ex_user_def plain_model_def ex_profile_rel_def
      ex_group_rel_def get_is_valid_validator_def str_split_def relation_descriptor_def
      none_or_str_def)

theorem render_relations_relation_type_witness:
  "render_relations ex_user (get_is_valid_validator [] []) \<noteq> Inl KeyError
   \<and> distinct (map rel_key (relationships ex_user))
   \<and> ex_profile_rel \<in> set (relationships ex_user)
   \<and> ex_group_rel \<in> set (relationships ex_user)
   \<and> (\<exists>d. map_of (projr (render_relations ex_user (get_is_valid_validator [] []))) ''profile''
             = Some d \<and> map_of d ''relation_type'' = Some (PStr ''ONETOONE''))
   \<and> (\<exists>d. map_of (projr (render_relations ex_user (get_is_valid_validator [] []))) ''group''
             = Some d \<and> map_of d ''relation_type'' = Some (PStr ''MANYTOONE''))"
proof -
  have d: "distinct (map rel_key (relationships ex_user))"
    by (simp add: ex_user_def plain_model_def ex_profile_rel_def ex_group_rel_def)
  have p: "ex_profile_rel \<in> set (relationships ex_user)"
    and g: "ex_group_rel \<in> set (relationships ex_user)"
    by (simp_all add: ex_user_def plain_model_def)
  have vp: "get_is_valid_validator [] [] (Str (rel_key ex_profile_rel)) = Inr True"
    and vg: "get_is_valid_validator [] [] (Str (rel_key ex_group_rel)) = Inr True"
    by (simp_all add: get_is_valid_validator_def)
  show ?thesis
    using render_relations_relation_type [OF ex_user_relations d p vp]
      render_relations_relation_type [OF ex_user_relations d g vg] d p g
    by (simp add: ex_user_relations ex_profile_rel_def ex_group_rel_def)
qed

subsection \<open>Association proxies\<close>

lemma collect_proxies_other:
  "k \<notin> fst ` set cd \<Longrightarrow> map_of (collect_proxies cd acc) k = map_of acc k"
proof (induction cd arbitrary: acc)
  case Nil
  show ?case by simp
next
  case (Cons x cd)
  obtain k' v where x: "x = (k', v)" by (cases x)
  from Cons.prems have k: "k \<noteq> k'" "k \<notin> fst ` set cd" by (auto simp: x)
  show ?case
    by (simp add: x Cons.IH [OF k(2)] map_of_update_other [OF k(1)]
             split: class_attr.splits option.splits)
qed

lemma distinct_collect_proxies:
  "distinct (map fst acc) \<Longrightarrow> distinct (map fst (collect_proxies cd acc))"
proof (induction cd arbitrary: acc)
  case Nil
  then show ?case by simp
next
  case (Cons x cd)
  obtain k' v where x: "x = (k', v)" by (cases x)
  show ?case
    by (auto simp: x split: class_attr.splits option.splits
             intro!: Cons.IH Cons.prems distinct_update)
qed

lemma collect_proxies_entry:
  "distinct (map fst cd) \<Longrightarrow> (name, AssociationProxy p) \<in> set cd \<Longrightarrow>
   remote_property p = Some prop \<Longrightarrow>
   map_of (collect_proxies cd acc) name = Some (prop, proxy_scalar p)"
proof (induction cd arbitrary: acc)
  case Nil
  then show ?case by simp
next
  case (Cons x cd)
  obtain k' v where x: "x = (k', v)" by (cases x)
  show ?case
  proof (cases "x = (name, AssociationProxy p)")
    case True
    from Cons.prems(1) True have "name \<notin> fst ` set cd" by auto
    from collect_proxies_other [OF this] show ?thesis
      using True Cons.prems(3) by (simp add: map_of_update_same)
  next
    case False
    with Cons.prems have "distinct (map fst cd)" "(name, AssociationProxy p) \<in> set cd"
      by auto
    from Cons.IH [OF this Cons.prems(3)] show ?thesis
      by (simp add: x split: class_attr.splits option.splits)
  qed
qed

lemma render_proxies_loop_other:
  "render_proxies_loop proxies ad fk = (ad', fk') \<Longrightarrow> name \<notin> fst ` set proxies \<Longrightarrow>
   map_of ad' name = map_of ad name \<and> map_of fk' name = map_of fk name"
proof (induction proxies ad fk rule: render_proxies_loop.induct)
  case (1 ad fk)
  then show ?case by simp
next
  case (2 n pr sc rest ad fk)
  from "2.prems"(2) have n: "name \<noteq> n" "name \<notin> fst ` set rest" by auto
  show ?case
    using "2.prems"(1) "2.IH" n(2)
    by (cases pr) (auto simp: map_of_update_other [OF n(1)])
qed

lemma render_proxies_loop_entry:
  "render_proxies_loop proxies ad fk = (ad', fk') \<Longrightarrow> distinct (map fst proxies) \<Longrightarrow>
   (name, prop, scalar) \<in> set proxies \<Longrightarrow>
   (case prop of
      RelationshipProperty remote_class \<Rightarrow>
        map_of fk' name =
          Some [(''foreign_model'', PStr remote_class),
                (''relation_type'', PStr (if scalar then ''MANYTOONE'' else ''ONETOMANY'')),
                (''is_proxy'', PBool True)]
        \<and> map_of ad' name = map_of ad name
    | ColumnProperty ctype \<Rightarrow>
        map_of ad' name = Some (str_lower ctype) \<and> map_of fk' name = map_of fk name
    | OtherProperty \<Rightarrow> map_of ad' name = map_of ad name \<and> map_of fk' name = map_of fk name)"
proof (induction proxies ad fk rule: render_proxies_loop.induct)
  case (1 ad fk)
  then show ?case by simp
next
  case (2 n pr sc rest ad fk)
  show ?case
  proof (cases "(name, prop, scalar) = (n, pr, sc)")
    case True
    from "2.prems"(2) True have notin: "name \<notin> fst ` set rest" by auto
    show ?thesis
      using "2.prems"(1) True
      by (cases pr)
         (auto dest!: render_proxies_loop_other [OF _ notin] simp: map_of_update_same)
  next
    case False
    with "2.prems" have mem: "(name, prop, scalar) \<in> set rest"
      and dist: "distinct (map fst rest)" by auto
    from "2.prems"(2) mem have ne: "name \<noteq> n" by force
    show ?thesis
      using "2.prems"(1) "2.IH" dist mem
      by (cases pr) (auto simp: map_of_update_other [OF ne] split: property.splits)
  qed
qed

text \<open>
  C7. For every association proxy of the class whose remote attribute has a property:
  if that property is a relationship, the proxy is rendered as the relation descriptor
  \<open>{foreign_model, relation_type, is_proxy: True}\<close>, with \<open>relation_type\<close> \<open>MANYTOONE\<close>
  when the proxy is scalar and \<open>ONETOMANY\<close> otherwise, so with neither \<open>backref\<close> nor
  \<open>local_column\<close>, and the attributes mapping is left alone at that name; if the
  property is a column, the proxy is rendered in the attributes mapping with the
  lowercased name of the column's type, and the relations mapping is left alone at that
  name.
\<close>

theorem render_association_proxies_entry:
  assumes "render_association_proxies m attribute_dict foreign_keys = (attribute_dict', foreign_keys')"
    and "distinct (map fst (class_dict m))"
    and "(name, AssociationProxy p) \<in> set (class_dict m)"
  shows "(\<forall>remote_class. remote_property p = Some (RelationshipProperty remote_class) \<longrightarrow>
            map_of foreign_keys' name =
              Some [(''foreign_model'', PStr remote_class),
                    (''relation_type'',
                       PStr (if proxy_scalar p then ''MANYTOONE'' else ''ONETOMANY'')),
                    (''is_proxy'', PBool True)]
            \<and> map_of attribute_dict' name = map_of attribute_dict name)
       \<and> (\<forall>ctype. remote_property p = Some (ColumnProperty ctype) \<longrightarrow>
            map_of attribute_dict' name = Some (str_lower ctype)
            \<and> map_of foreign_keys' name = map_of foreign_keys name)"
proof -
  let ?proxies = "collect_proxies (class_dict m) []"
  have loop: "render_proxies_loop ?proxies attribute_dict foreign_keys
                = (attribute_dict', foreign_keys')"
    using assms(1) by (simp add: render_association_proxies_def)
  have dist: "distinct (map fst ?proxies)"
    by (rule distinct_collect_proxies) simp
  have entry: "(name, pr, proxy_scalar p) \<in> set ?proxies"
    if "remote_property p = Some pr" for pr
    using collect_proxies_entry [OF assms(2,3) that, of "[]"] by (rule map_of_SomeD)
  show ?thesis
  proof (intro conjI allI impI)
    fix remote_class
    assume "remote_property p = Some (RelationshipProperty remote_class)"
    from render_proxies_loop_entry [OF loop dist entry [OF this]]
    show "map_of foreign_keys' name =
            Some [(''foreign_model'', PStr remote_class),
                  (''relation_type'',
                     PStr (if proxy_scalar p then ''MANYTOONE'' else ''ONETOMANY'')),
                  (''is_proxy'', PBool True)]"
      and "map_of attribute_dict' name = map_of attribute_dict name"
      by simp_all
  next
    fix ctype
    assume "remote_property p = Some (ColumnProperty ctype)"
    from render_proxies_loop_entry [OF loop dist entry [OF this]]
    show "map_of attribute_dict' name = Some (str_lower ctype)"
      and "map_of foreign_keys' name = map_of foreign_keys name"
      by simp_all
  qed
qed

lemma str_lower_String: "str_lower ''String'' = ''string''"
  by code_simp

lemma str_lower_Integer: "str_lower ''Integer'' = ''integer''"
  by code_simp

lemma ex_user_proxies:
  "render_association_proxies ex_user [(''id'', ''integer'')] [] =
     ([(''id'', ''integer''), (''group_name'', ''string'')],
      [(''tags'', [(''foreign_model'', PStr ''Tag''), (''relation_type'', PStr ''ONETOMANY''),
                   (''is_proxy'', PBool True)])])"
  by (simp add: render_association_proxies_def ex_user_def plain_model_def ex_tags_proxy_def
      ex_group_name_proxy_def str_lower_String)

theorem render_association_proxies_entry_witness:
  "distinct (map fst (class_dict ex_user))
   \<and> (''tags'', AssociationProxy ex_tags_proxy) \<in> set (class_dict ex_user)
   \<and> (''group_name'', AssociationProxy ex_group_name_proxy) \<in> set (class_dict ex_user)
   \<and> remote_property ex_tags_proxy = Some (RelationshipProperty ''Tag'')
   \<and> remote_property ex_group_name_proxy = Some (ColumnProperty ''String'')
   \<and> map_of (snd (render_association_proxies ex_user [(''id'', ''integer'')] [])) ''tags'' =
       Some [(''foreign_model'', PStr ''Tag''), (''relation_type'', PStr ''ONETOMANY''),
             (''is_proxy'', PBool True)]
   \<and> map_of (fst (render_association_proxies ex_user [(''id'', ''integer'')] [])) ''tags'' = None
   \<and> map_of (fst (render_association_proxies ex_user [(''id'', ''integer'')] [])) ''group_name''
       = Some ''string''
   \<and> map_of (snd (render_association_proxies ex_user [(''id'', ''integer'')] [])) ''group_name''
       = None"
proof -
  have d: "distinct (map fst (class_dict ex_user))"
    by (simp add: ex_user_def plain_model_def)
  have t: "(''tags'', AssociationProxy ex_tags_proxy) \<in> set (class_dict ex_user)"
    and g: "(''group_name'', AssociationProxy ex_group_name_proxy) \<in> set (class_dict ex_user)"
    by (simp_all add: ex_user_def plain_model_def)
  have rt: "remote_property ex_tags_proxy = Some (RelationshipProperty ''Tag'')"
    and rg: "remote_property ex_group_name_proxy = Some (ColumnProperty ''String'')"
    by (simp_all add: ex_tags_proxy_def ex_group_name_proxy_def)
  show ?thesis
    using render_association_proxies_entry [OF ex_user_proxies d t]
      render_association_proxies_entry [OF ex_user_proxies d g] d t g rt rg
    by (simp add: ex_user_proxies str_lower_String ex_tags_proxy_def)
qed

subsection \<open>Optional keys\<close>

lemma classify_parameters_vars:
  "classify_parameters ps (required, optional, argsvar, kwargsvar) = (r, opt, a, k) \<Longrightarrow>
   (a = None \<longleftrightarrow>
      argsvar = None \<and>
      \<not> (\<exists>p\<in>set ps. param_name p \<noteq> ''self'' \<and> param_kind p = VAR_POSITIONAL)) \<and>
   (k = None \<longleftrightarrow>
      kwargsvar = None \<and>
      \<not> (\<exists>p\<in>set ps. param_name p \<noteq> ''self'' \<and> param_kind p = VAR_KEYWORD))"
proof (induction ps arbitrary: required optional argsvar kwargsvar)
  case Nil
  then show ?case by simp
next
  case (Cons p ps)
  from Cons.prems show ?case
    by (auto split: if_splits dest!: Cons.IH)
qed

lemma none_or_str_PNone: "none_or_str v = PNone \<longleftrightarrow> v = None"
  by (simp add: none_or_str_def split: option.splits)

lemma method_descriptor_keys:
  shows "\<exists>v. map_of (method_descriptor params) ''argsvar'' = Some v \<and>
           (v = PNone \<longleftrightarrow>
              \<not> (\<exists>p\<in>set params. param_name p \<noteq> ''self'' \<and> param_kind p = VAR_POSITIONAL))"
    and "\<exists>v. map_of (method_descriptor params) ''kwargsvar'' = Some v \<and>
           (v = PNone \<longleftrightarrow>
              \<not> (\<exists>p\<in>set params. param_name p \<noteq> ''self'' \<and> param_kind p = VAR_KEYWORD))"
proof -
  obtain r opt a k where c: "classify_parameters params ([], [], None, None) = (r, opt, a, k)"
    by (metis prod_cases4)
  from classify_parameters_vars [OF c]
  have a: "a = None \<longleftrightarrow>
             \<not> (\<exists>p\<in>set params. param_name p \<noteq> ''self'' \<and> param_kind p = VAR_POSITIONAL)"
    and k: "k = None \<longleftrightarrow>
             \<not> (\<exists>p\<in>set params. param_name p \<noteq> ''self'' \<and> param_kind p = VAR_KEYWORD)"
    by simp_all
  have "map_of (method_descriptor params) ''argsvar'' = Some (none_or_str a)"
    and "map_of (method_descriptor params) ''kwargsvar'' = Some (none_or_str k)"
    by (simp_all add: method_descriptor_def c)
  with a k show
    "\<exists>v. map_of (method_descriptor params) ''argsvar'' = Some v \<and>
           (v = PNone \<longleftrightarrow>
              \<not> (\<exists>p\<in>set params. param_name p \<noteq> ''self'' \<and> param_kind p = VAR_POSITIONAL))"
    and "\<exists>v. map_of (method_descriptor params) ''kwargsvar'' = Some v \<and>
           (v = PNone \<longleftrightarrow>
              \<not> (\<exists>p\<in>set params. param_name p \<noteq> ''self'' \<and> param_kind p = VAR_KEYWORD))"
    by (simp_all only: none_or_str_PNone [symmetric] simp_thms ex_simps) blast+
qed

lemma compile_method_list_loop_origin:
  "(n, d) \<in> set (compile_method_list_loop include_internal fns acc) \<Longrightarrow>
   (n, d) \<in> set acc \<or> (\<exists>params. (n, params) \<in> set fns \<and> d = method_descriptor params)"
proof (induction fns arbitrary: acc)
  case Nil
  then show ?case by simp
next
  case (Cons f fns)
  obtain name params where f: "f = (name, params)" by (cases f)
  from Cons.prems consider
      (skip) "(n, d) \<in> set (compile_method_list_loop include_internal fns acc)"
    | (store) "(n, d) \<in> set (compile_method_list_loop include_internal fns
                               (AList.update name (method_descriptor params) acc))"
    by (auto simp: f split: if_splits)
  then show ?case
  proof cases
    case skip
    from Cons.IH [OF skip] show ?thesis by auto
  next
    case store
    from Cons.IH [OF store] set_update_subset [of name "method_descriptor params" acc]
    show ?thesis by (auto simp: f)
  qed
qed

text \<open>
  C8, as the code has it. In every relation descriptor rendered for a direct
  relationship the key \<open>backref\<close> is present, with value \<open>None\<close> exactly when the
  relationship declares no reciprocal relation; \<open>local_column\<close> is present exactly for
  \<open>MANYTOONE\<close> and \<open>is_proxy\<close> is absent. In every operation descriptor the keys
  \<open>argsvar\<close> and \<open>kwargsvar\<close> are present, with value \<open>None\<close> exactly when the function
  declares no variadic-positional, respectively variadic-keyword, parameter.
\<close>

theorem optional_keys_present_with_None:
  "(render_relations m is_valid = Inr foreign_keys \<longrightarrow>
      (\<forall>(key, d) \<in> set foreign_keys.
         \<exists>rel \<in> set (relationships m).
           key = rel_key rel \<and>
           (\<exists>v. map_of d ''backref'' = Some v \<and>
                (v = PNone \<longleftrightarrow> rel_back_populates rel = None)) \<and>
           (map_of d ''local_column'' \<noteq> None \<longleftrightarrow> rel_direction rel = MANYTOONE) \<and>
           map_of d ''is_proxy'' = None))
   \<and> (\<forall>(name, d) \<in> set (compile_method_list options m).
         \<exists>params. (name, params) \<in> set (member_functions m) \<and>
           (\<exists>v. map_of d ''argsvar'' = Some v \<and>
                (v = PNone \<longleftrightarrow>
                   \<not> (\<exists>p\<in>set params. param_name p \<noteq> ''self'' \<and> param_kind p = VAR_POSITIONAL))) \<and>
           (\<exists>v. map_of d ''kwargsvar'' = Some v \<and>
                (v = PNone \<longleftrightarrow>
                   \<not> (\<exists>p\<in>set params. param_name p \<noteq> ''self'' \<and> param_kind p = VAR_KEYWORD))))"
proof (intro conjI impI ballI)
  fix x
  assume r: "render_relations m is_valid = Inr foreign_keys" and x: "x \<in> set foreign_keys"
  obtain key d where kd: "x = (key, d)" by (cases x)
  from render_relations_loop_origin [OF r [unfolded render_relations_def] x [unfolded kd]]
  obtain rel where rel: "rel \<in> set (relationships m)" "key = rel_key rel"
      "relation_descriptor rel = Inr d"
    by auto
  from relation_descriptor_keys(2-4) [OF rel(3)] rel(1,2)
  show "case x of (key, d) \<Rightarrow>
          \<exists>rel \<in> set (relationships m).
            key = rel_key rel \<and>
            (\<exists>v. map_of d ''backref'' = Some v \<and>
                 (v = PNone \<longleftrightarrow> rel_back_populates rel = None)) \<and>
            (map_of d ''local_column'' \<noteq> None \<longleftrightarrow> rel_direction rel = MANYTOONE) \<and>
            map_of d ''is_proxy'' = None"
    unfolding kd by (auto simp: none_or_str_PNone)
next
  fix x
  assume x: "x \<in> set (compile_method_list options m)"
  obtain name d where nd: "x = (name, d)" by (cases x)
  from compile_method_list_loop_origin [OF x [unfolded nd compile_method_list_def Let_def]]
  obtain params where p: "(name, params) \<in> set (member_functions m)"
      "d = method_descriptor params"
    by auto
  from method_descriptor_keys [of params] p(1)
  show "case x of (name, d) \<Rightarrow>
          \<exists>params. (name, params) \<in> set (member_functions m) \<and>
            (\<exists>v. map_of d ''argsvar'' = Some v \<and>
                 (v = PNone \<longleftrightarrow>
                    \<not> (\<exists>p\<in>set params. param_name p \<noteq> ''self'' \<and> param_kind p = VAR_POSITIONAL))) \<and>
            (\<exists>v. map_of d ''kwargsvar'' = Some v \<and>
                 (v = PNone \<longleftrightarrow>
                    \<not> (\<exists>p\<in>set params. param_name p \<noteq> ''self'' \<and> param_kind p = VAR_KEYWORD)))"
    unfolding nd p(2) prod.case by blast
qed

subsection \<open>Evaluating the renderers on the example models\<close>

lemmas example_defs =
  ex_kwargs_def db_Model_def plain_model_def ex_profile_rel_def ex_group_rel_def
  ex_tags_proxy_def ex_group_name_proxy_def ex_rename_params_def ex_user_def ex_person_def
  animal_args_def ex_animal_def animal_kls_def dog_args_def ex_dog_def dog_kls_def
  ex_puppy_def ex_methods_def ex_pet_def

lemmas class_renderer_defs =
  ClassDefinitionRenderer_render_def render_attributes_def render_relations_def
  render_hybrid_properties_def render_association_proxies_def relation_descriptor_def
  get_is_valid_validator_def str_split_def none_or_str_def dict_update_def

lemmas data_renderer_defs =
  DataModelRenderer_render_def flag_inheritance_models_def find_parent_def
  resolve_inheritance_def getitem_def

lemmas str_lower_examples = str_lower_String str_lower_Integer

lemma render_ex_animal:
  "ClassDefinitionRenderer_render ex_animal ex_kwargs =
     Inr \<lparr>pk_name = ''id'', collection_name = ''items'',
          attributes = [(''id'', ''integer''), (''type'', ''string''), (''code'', ''integer'')],
          relations = [], methods = None, polymorphic = None\<rparr>"
  by (simp add: example_defs class_renderer_defs str_lower_examples)

lemma render_ex_dog:
  "ClassDefinitionRenderer_render ex_dog ex_kwargs =
     Inr \<lparr>pk_name = ''id'', collection_name = ''items'',
          attributes = [(''id'', ''integer''), (''code'', ''string'')],
          relations = [], methods = None, polymorphic = None\<rparr>"
  by (simp add: example_defs class_renderer_defs str_lower_examples)

lemma render_ex_puppy:
  "ClassDefinitionRenderer_render ex_puppy ex_kwargs =
     Inr \<lparr>pk_name = ''id'', collection_name = ''items'',
          attributes = [(''id'', ''integer''), (''toy'', ''string'')],
          relations = [], methods = None, polymorphic = None\<rparr>"
  by (simp add: example_defs class_renderer_defs str_lower_examples)

lemma flag_ex_animal: "flag_inheritance_models ex_animal = Inr None"
  by (simp add: example_defs data_renderer_defs)

lemma flag_ex_dog:
  "flag_inheritance_models ex_dog =
     Inr (Some \<lparr>inh_on = ''type'', inh_parent = ''Animal'', inh_identity = ''dog''\<rparr>)"
  by (simp add: example_defs data_renderer_defs)

lemma flag_ex_puppy:
  "flag_inheritance_models ex_puppy =
     Inr (Some \<lparr>inh_on = ''type'', inh_parent = ''Dog'', inh_identity = ''puppy''\<rparr>)"
  by (simp add: example_defs data_renderer_defs)

lemma model_name_examples:
  "model_name ex_animal = ''Animal''" "model_name ex_dog = ''Dog''"
  "model_name ex_puppy = ''Puppy''"
  by (simp_all add: example_defs)

lemmas hierarchy_eval =
  render_ex_animal render_ex_dog render_ex_puppy flag_ex_animal flag_ex_dog flag_ex_puppy
  model_name_examples ex_methods_def DataModelRenderer_render_def resolve_inheritance_def
  getitem_def dict_update_def

lemma compose_animal_dog:
  "DataModelRenderer_render [(ex_animal, ex_kwargs), (ex_dog, ex_kwargs)] ex_methods =
     Inr [(''Animal'',
           \<lparr>pk_name = ''id'', collection_name = ''items'',
            attributes = [(''id'', ''integer''), (''type'', ''string''), (''code'', ''integer'')],
            relations = [], methods = Some [],
            polymorphic = Some \<lparr>poly_parent = None, poly_on = Some ''type'',
                                 poly_identities = Some [(''dog'', ''Dog'')]\<rparr>\<rparr>),
          (''Dog'',
           \<lparr>pk_name = ''id'', collection_name = ''items'',
            attributes = [(''id'', ''integer''), (''code'', ''integer''), (''type'', ''string'')],
            relations = [], methods = Some [],
            polymorphic = Some \<lparr>poly_parent = Some ''Animal'', poly_on = None,
                                 poly_identities = None\<rparr>\<rparr>)]"
  by (simp add: hierarchy_eval)

lemma ex_user_methods:
  "compile_method_list [] ex_user =
     [(''rename'',
       [(''args'', PList [''new_name'']), (''kwargs'', PList [''notify'']),
        (''argsvar'', PNone), (''kwargsvar'', PNone)])]"
  by (simp add: compile_method_list_def example_defs startswith_def method_descriptor_def
      none_or_str_def)

text \<open>
  C8 fails as stated: the relationship \<open>profile\<close> of the example user declares no
  reciprocal relation and its descriptor has the key \<open>backref\<close>, with value \<open>None\<close>; the
  method \<open>rename(self, new_name, notify=...)\<close> declares no variadic parameter and its
  descriptor has the keys \<open>argsvar\<close> and \<open>kwargsvar\<close>, with value \<open>None\<close>.
\<close>

theorem optional_keys_counterexample:
  "rel_back_populates ex_profile_rel = None
   \<and> render_relations ex_user (get_is_valid_validator [] []) =
       Inr [(''profile'',
             [(''foreign_model'', PStr ''Profile''), (''relation_type'', PStr ''ONETOONE''),
              (''backref'', PNone)]),
            (''group'',
             [(''foreign_model'', PStr ''Group''), (''relation_type'', PStr ''MANYTOONE''),
              (''backref'', PStr ''users''), (''local_column'', PStr ''group_id'')])]
   \<and> compile_method_list [] ex_user =
       [(''rename'',
         [(''args'', PList [''new_name'']), (''kwargs'', PList [''notify'']),
          (''argsvar'', PNone), (''kwargsvar'', PNone)])]"
  by (simp add: ex_user_relations ex_user_methods) (simp add: ex_profile_rel_def)

theorem optional_keys_present_with_None_witness:
  "render_relations ex_user (get_is_valid_validator [] []) =
       Inr [(''profile'',
             [(''foreign_model'', PStr ''Profile''), (''relation_type'', PStr ''ONETOONE''),
              (''backref'', PNone)]),
            (''group'',
             [(''foreign_model'', PStr ''Group''), (''relation_type'', PStr ''MANYTOONE''),
              (''backref'', PStr ''users''), (''local_column'', PStr ''group_id'')])]
   \<and> (\<exists>rel. rel \<in> set (relationships ex_user) \<and> rel_key rel = ''profile''
             \<and> rel_back_populates rel = None \<and> rel_direction rel \<noteq> MANYTOONE)
   \<and> (\<exists>params. (''rename'', params) \<in> set (member_functions ex_user)
             \<and> list_all (\<lambda>p. param_name p = ''self'' \<or> param_kind p \<noteq> VAR_POSITIONAL) params)"
proof -
  let ?fk = "[(''profile'',
             [(''foreign_model'', PStr ''Profile''), (''relation_type'', PStr ''ONETOONE''),
              (''backref'', PNone)]),
            (''group'',
             [(''foreign_model'', PStr ''Group''), (''relation_type'', PStr ''MANYTOONE''),
              (''backref'', PStr ''users''), (''local_column'', PStr ''group_id'')])]"
  note t = optional_keys_present_with_None
             [of ex_user "get_is_valid_validator [] []" ?fk "[]"]
  from t [THEN conjunct1, THEN mp, OF ex_user_relations]
  have 1: "\<exists>rel. rel \<in> set (relationships ex_user) \<and> rel_key rel = ''profile''
             \<and> rel_back_populates rel = None \<and> rel_direction rel \<noteq> MANYTOONE"
    by auto
  from t [THEN conjunct2]
  have 2: "\<exists>params. (''rename'', params) \<in> set (member_functions ex_user)
             \<and> list_all (\<lambda>p. param_name p = ''self'' \<or> param_kind p \<noteq> VAR_POSITIONAL) params"
    unfolding ex_user_methods by (auto simp: list_all_iff)
  from ex_user_relations 1 2 show ?thesis by (intro conjI)
qed

subsection \<open>Hybrid properties\<close>

lemma render_hybrid_properties_raises:
  "HybridProperty n \<in> set (all_orm_descriptors m) \<Longrightarrow>
   render_hybrid_properties m (get_is_valid_validator included excluded) = Inl AttributeError"
proof -
  assume "HybridProperty n \<in> set (all_orm_descriptors m)"
  then have "filter is_hybrid_property (all_orm_descriptors m) \<noteq> []"
    by (auto simp: filter_empty_conv intro!: bexI [of _ "HybridProperty n"])
  moreover have "\<forall>a \<in> set (filter is_hybrid_property (all_orm_descriptors m)).
                   get_is_valid_validator included excluded a = Inl AttributeError"
    by (auto simp: get_is_valid_validator_def elim: is_hybrid_property.elims)
  ultimately show ?thesis
    unfolding render_hybrid_properties_def Let_def
    by (cases "filter is_hybrid_property (all_orm_descriptors m)") auto
qed

text \<open>
  C6, at the failing input. The example person has the hybrid property \<open>full_name\<close>
  and no filter: \<open>render_hybrid_properties\<close> hands the \<open>hybrid_property\<close> object to
  \<open>is_valid\<close>, whose \<open>column.split\<close> raises \<open>AttributeError\<close>, and rendering the model
  raises with it instead of yielding \<open>full_name\<close> with the tag \<open>hybrid\<close>.
\<close>

theorem render_hybrid_properties_ex_person:
  "render_hybrid_properties ex_person (get_is_valid_validator [] []) = Inl AttributeError
   \<and> ClassDefinitionRenderer_render ex_person ex_kwargs = Inl AttributeError"
  by (simp add: example_defs class_renderer_defs str_lower_examples)

subsection \<open>Merging a parent into a child\<close>

text \<open>
  C1, as the code has it. When \<open>resolve_inheritance\<close> links a child to a different
  parent, the child's attributes and relations become its own entries overridden by
  the parent's (\<open>m ++ m'\<close> takes the value of \<open>m'\<close> wherever \<open>m'\<close> is defined): every
  parent entry is stored into the child, a key defined on both takes the parent's
  value, and a key defined on the child only keeps the child's value.
\<close>

theorem resolve_inheritance_parent_wins:
  assumes "resolve_inheritance model_n inheriting_from dm = Inr dm'"
    and "inh_parent inheriting_from \<noteq> model_n"
    and "map_of dm (inh_parent inheriting_from) = Some idef"
    and "map_of dm model_n = Some odef"
    and "distinct (map fst (attributes idef))"
    and "distinct (map fst (relations idef))"
  shows "\<exists>odef'. map_of dm' model_n = Some odef' \<and>
           map_of (attributes odef') = map_of (attributes odef) ++ map_of (attributes idef) \<and>
           map_of (relations odef') = map_of (relations odef) ++ map_of (relations idef)"
  using assms
  by (auto simp: resolve_inheritance_def getitem_def Let_def update_conv' map_of_dict_update)

text \<open>
  C1 fails as stated: \<open>Dog\<close> defines \<open>code\<close> as a \<open>String\<close> column and its parent
  \<open>Animal\<close> defines \<open>code\<close> as an \<open>Integer\<close> column; in the composed schema \<open>Dog\<close> has
  \<open>code\<close> with the parent's tag \<open>integer\<close>.
\<close>

theorem child_wins_counterexample:
  "ClassDefinitionRenderer_render ex_dog ex_kwargs =
     Inr \<lparr>pk_name = ''id'', collection_name = ''items'',
          attributes = [(''id'', ''integer''), (''code'', ''string'')],
          relations = [], methods = None, polymorphic = None\<rparr>
   \<and> DataModelRenderer_render [(ex_animal, ex_kwargs), (ex_dog, ex_kwargs)] ex_methods =
     Inr [(''Animal'',
           \<lparr>pk_name = ''id'', collection_name = ''items'',
            attributes = [(''id'', ''integer''), (''type'', ''string''), (''code'', ''integer'')],
            relations = [], methods = Some [],
            polymorphic = Some \<lparr>poly_parent = None, poly_on = Some ''type'',
                                 poly_identities = Some [(''dog'', ''Dog'')]\<rparr>\<rparr>),
          (''Dog'',
           \<lparr>pk_name = ''id'', collection_name = ''items'',
            attributes = [(''id'', ''integer''), (''code'', ''integer''), (''type'', ''string'')],
            relations = [], methods = Some [],
            polymorphic = Some \<lparr>poly_parent = Some ''Animal'', poly_on = None,
                                 poly_identities = None\<rparr>\<rparr>)]"
  by (simp add: render_ex_dog compose_animal_dog)

theorem resolve_inheritance_parent_wins_witness:
  "resolve_inheritance ''Dog'' dog_inheritance
       [(''Animal'', animal_descriptor), (''Dog'', dog_descriptor)] \<noteq> Inl KeyError
   \<and> inh_parent dog_inheritance \<noteq> ''Dog''
   \<and> distinct (map fst (attributes animal_descriptor))
   \<and> distinct (map fst (relations animal_descriptor))
   \<and> (\<exists>odef'. map_of (projr (resolve_inheritance ''Dog'' dog_inheritance
                   [(''Animal'', animal_descriptor), (''Dog'', dog_descriptor)])) ''Dog''
                = Some odef'
              \<and> map_of (attributes odef') ''code'' = Some ''integer''
              \<and> map_of (attributes odef') ''type'' = Some ''string'')"
proof -
  let ?dm = "[(''Animal'', animal_descriptor), (''Dog'', dog_descriptor)]"
  obtain dm' where r: "resolve_inheritance ''Dog'' dog_inheritance ?dm = Inr dm'"
    by (simp add: resolve_inheritance_def getitem_def dog_inheritance_def Let_def)
  have p: "inh_parent dog_inheritance \<noteq> ''Dog''"
    by (simp add: dog_inheritance_def)
  have i: "map_of ?dm (inh_parent dog_inheritance) = Some animal_descriptor"
    and o: "map_of ?dm ''Dog'' = Some dog_descriptor"
    by (simp_all add: dog_inheritance_def)
  have da: "distinct (map fst (attributes animal_descriptor))"
    and dr: "distinct (map fst (relations animal_descriptor))"
    by (simp_all add: animal_descriptor_def)
  from resolve_inheritance_parent_wins [OF r p i o da dr] r p da dr
  show ?thesis
    by (auto simp: animal_descriptor_def dog_descriptor_def)
qed

subsection \<open>What a rendered class definition contains\<close>

lemma keys_update: "keys (AList.update k v al) = insert k (keys al)"
  by (simp add: keys_def dom_update)

lemma render_attributes_loop_keys:
  "render_attributes_loop cols is_valid acc = Inr d \<Longrightarrow>
   keys d \<subseteq> keys acc \<union> col_name ` set cols"
proof (induction cols arbitrary: acc)
  case Nil
  then show ?case by simp
next
  case (Cons c cols)
  from Cons.prems show ?case
    by (auto split: sum.splits if_splits dest!: Cons.IH simp: keys_update)
qed

lemma render_attributes_loop_distinct:
  "render_attributes_loop cols is_valid acc = Inr d \<Longrightarrow> distinct (map fst acc) \<Longrightarrow>
   distinct (map fst d)"
proof (induction cols arbitrary: acc)
  case Nil
  then show ?case by simp
next
  case (Cons c cols)
  from Cons.prems(1) obtain acc' where loop: "render_attributes_loop cols is_valid acc' = Inr d"
    and acc': "acc' = acc \<or> acc' = AList.update (col_name c) (str_lower (col_type c)) acc"
    by (auto split: sum.splits if_splits)
  from acc' Cons.prems(2) have "distinct (map fst acc')"
    by (auto simp: distinct_update)
  with loop show ?case by (rule Cons.IH)
qed

lemma render_relations_loop_keys:
  "render_relations_loop rels is_valid acc = Inr d \<Longrightarrow>
   keys d \<subseteq> keys acc \<union> rel_key ` set rels"
proof (induction rels arbitrary: acc)
  case Nil
  then show ?case by simp
next
  case (Cons r rels)
  from Cons.prems show ?case
    by (auto split: sum.splits if_splits dest!: Cons.IH simp: keys_update)
qed

lemma render_relations_loop_distinct:
  "render_relations_loop rels is_valid acc = Inr d \<Longrightarrow> distinct (map fst acc) \<Longrightarrow>
   distinct (map fst d)"
proof (induction rels arbitrary: acc)
  case Nil
  then show ?case by simp
next
  case (Cons r rels)
  from Cons.prems(1) obtain acc' where loop: "render_relations_loop rels is_valid acc' = Inr d"
    and acc': "acc' = acc \<or> (\<exists>v. acc' = AList.update (rel_key r) v acc)"
    by (auto split: sum.splits if_splits)
  from acc' Cons.prems(2) have "distinct (map fst acc')"
    by (auto simp: distinct_update)
  with loop show ?case by (rule Cons.IH)
qed

lemma render_hybrid_properties_loop_keys:
  "render_hybrid_properties_loop hs is_valid acc = Inr d \<Longrightarrow>
   keys d \<subseteq> keys acc \<union> set (hybrid_names hs)"
proof (induction hs arbitrary: acc)
  case Nil
  then show ?case by simp
next
  case (Cons h hs)
  from Cons.prems show ?case
    by (cases h) (auto split: sum.splits if_splits dest!: Cons.IH simp: keys_update)
qed

lemma hybrid_names_filter: "hybrid_names (filter is_hybrid_property hs) = hybrid_names hs"
  by (induction hs rule: hybrid_names.induct) auto

lemma collect_proxies_set:
  "(k, pr, sc) \<in> set (collect_proxies cd acc) \<Longrightarrow>
   (k, pr, sc) \<in> set acc \<or>
   (\<exists>p. (k, AssociationProxy p) \<in> set cd \<and> remote_property p = Some pr)"
proof (induction cd arbitrary: acc)
  case Nil
  then show ?case by simp
next
  case (Cons x cd)
  obtain k' v where x: "x = (k', v)" by (cases x)
  show ?case
  proof (cases v)
    case OtherAttr
    with Cons.prems x have "(k, pr, sc) \<in> set (collect_proxies cd acc)" by simp
    from Cons.IH [OF this] show ?thesis by auto
  next
    case (AssociationProxy p)
    show ?thesis
    proof (cases "remote_property p")
      case None
      with Cons.prems x AssociationProxy
      have "(k, pr, sc) \<in> set (collect_proxies cd acc)" by simp
      from Cons.IH [OF this] show ?thesis by auto
    next
      case (Some pr')
      with Cons.prems x AssociationProxy
      have "(k, pr, sc) \<in> set (collect_proxies cd (AList.update k' (pr', proxy_scalar p) acc))"
        by simp
      from Cons.IH [OF this] set_update_subset [of k' "(pr', proxy_scalar p)" acc]
      show ?thesis using x AssociationProxy Some by auto
    qed
  qed
qed

lemma proxy_names_mem:
  "(k, AssociationProxy p) \<in> set cd \<Longrightarrow> remote_property p = Some pr \<Longrightarrow> P pr \<Longrightarrow>
   k \<in> set (proxy_names P cd)"
  by (induction P cd rule: proxy_names.induct) (auto split: option.splits)

lemma render_proxies_loop_keys:
  "render_proxies_loop proxies ad fk = (ad', fk') \<Longrightarrow>
   (k \<in> keys ad' \<longrightarrow> k \<in> keys ad \<or> (\<exists>c sc. (k, ColumnProperty c, sc) \<in> set proxies)) \<and>
   (k \<in> keys fk' \<longrightarrow> k \<in> keys fk \<or> (\<exists>c sc. (k, RelationshipProperty c, sc) \<in> set proxies))"
proof (induction proxies ad fk rule: render_proxies_loop.induct)
  case (1 ad fk)
  then show ?case by simp
next
  case (2 n pr sc rest ad fk)
  show ?case
  proof (cases pr)
    case (RelationshipProperty c)
    with "2.prems" have "render_proxies_loop rest ad
        (AList.update n [(''foreign_model'', PStr c),
                         (''relation_type'', PStr (if sc then ''MANYTOONE'' else ''ONETOMANY'')),
                         (''is_proxy'', PBool True)] fk) = (ad', fk')"
      by simp
    from "2.IH"(1) [OF RelationshipProperty this] show ?thesis
      unfolding keys_update insert_iff using RelationshipProperty by (simp only: list.set insert_iff) blast
  next
    case (ColumnProperty c)
    with "2.prems" have "render_proxies_loop rest (AList.update n (str_lower c) ad) fk = (ad', fk')"
      by simp
    from "2.IH"(2) [OF ColumnProperty this] show ?thesis
      unfolding keys_update insert_iff using ColumnProperty by (simp only: list.set insert_iff) blast
  next
    case OtherProperty
    with "2.prems" have "render_proxies_loop rest ad fk = (ad', fk')"
      by simp
    from "2.IH"(3) [OF OtherProperty this] show ?thesis
      by (simp only: list.set insert_iff) blast
  qed
qed

lemma render_proxies_loop_distinct:
  "render_proxies_loop proxies ad fk = (ad', fk') \<Longrightarrow>
   distinct (map fst ad) \<Longrightarrow> distinct (map fst fk) \<Longrightarrow>
   distinct (map fst ad') \<and> distinct (map fst fk')"
proof (induction proxies ad fk rule: render_proxies_loop.induct)
  case (1 ad fk)
  then show ?case by simp
next
  case (2 n pr sc rest ad fk)
  show ?case
  proof (cases pr)
    case (RelationshipProperty c)
    with "2.prems" "2.IH"(1) [OF RelationshipProperty] show ?thesis
      by (simp add: distinct_update)
  next
    case (ColumnProperty c)
    with "2.prems" "2.IH"(2) [OF ColumnProperty] show ?thesis
      by (simp add: distinct_update)
  next
    case OtherProperty
    with "2.prems" "2.IH"(3) [OF OtherProperty] show ?thesis
      by simp
  qed
qed

lemma ClassDefinitionRenderer_render_keys:
  assumes "ClassDefinitionRenderer_render m kw = Inr d"
  shows "keys (attributes d) \<subseteq> set (attribute_names m)"
    and "keys (relations d) \<subseteq> set (relation_names m)"
    and "distinct (map fst (attributes d))"
    and "distinct (map fst (relations d))"
    and "methods d = None" and "polymorphic d = None"
proof -
  let ?iv = "get_is_valid_validator (kw_included kw) (kw_excluded kw)"
  let ?px = "collect_proxies (class_dict m) []"
  obtain ad where ad: "render_attributes m ?iv = Inr ad"
    using assms
    by (cases "render_attributes m ?iv") (simp_all add: ClassDefinitionRenderer_render_def)
  obtain fk where fk: "render_relations m ?iv = Inr fk"
    using assms ad
    by (cases "render_relations m ?iv") (simp_all add: ClassDefinitionRenderer_render_def)
  obtain hy where hy: "render_hybrid_properties m ?iv = Inr hy"
    using assms ad fk
    by (cases "render_hybrid_properties m ?iv")
       (simp_all add: ClassDefinitionRenderer_render_def)
  obtain ad' fk' where px: "render_proxies_loop ?px (dict_update ad hy) fk = (ad', fk')"
    by (cases "render_proxies_loop ?px (dict_update ad hy) fk") blast
  have d: "d = \<lparr>pk_name = primary_key_name m, collection_name = kw_collection_name kw,
             attributes = ad', relations = fk', methods = None, polymorphic = None\<rparr>"
    using assms ad fk hy px
    by (simp add: ClassDefinitionRenderer_render_def render_association_proxies_def)
  from render_attributes_loop_keys [OF ad [unfolded render_attributes_def]]
  have k1: "keys ad \<subseteq> col_name ` set (table_columns m)" by (simp add: keys_def)
  from render_hybrid_properties_loop_keys [OF hy [unfolded render_hybrid_properties_def Let_def]]
  have k2: "keys hy \<subseteq> set (hybrid_names (all_orm_descriptors m))"
    by (simp add: keys_def hybrid_names_filter)
  from render_relations_loop_keys [OF fk [unfolded render_relations_def]]
  have k3: "keys fk \<subseteq> rel_key ` set (relationships m)" by (simp add: keys_def)
  have k4: "k \<in> set (proxy_names is_column_property (class_dict m))"
    if "(k, ColumnProperty c, sc) \<in> set ?px" for k c sc
  proof -
    from collect_proxies_set [OF that] obtain p
      where "(k, AssociationProxy p) \<in> set (class_dict m)"
        "remote_property p = Some (ColumnProperty c)" by auto
    then show ?thesis by (rule proxy_names_mem) simp
  qed
  have k5: "k \<in> set (proxy_names is_relationship_property (class_dict m))"
    if "(k, RelationshipProperty c, sc) \<in> set ?px" for k c sc
  proof -
    from collect_proxies_set [OF that] obtain p
      where "(k, AssociationProxy p) \<in> set (class_dict m)"
        "remote_property p = Some (RelationshipProperty c)" by auto
    then show ?thesis by (rule proxy_names_mem) simp
  qed
  note pk = render_proxies_loop_keys [OF px, unfolded keys_dict_update Un_iff]
  show "keys (attributes d) \<subseteq> set (attribute_names m)"
  proof
    fix k assume "k \<in> keys (attributes d)"
    with pk [of k] have "k \<in> keys ad \<or> k \<in> keys hy
                   \<or> (\<exists>c sc. (k, ColumnProperty c, sc) \<in> set ?px)"
      by (simp add: d)
    with k1 k2 k4 show "k \<in> set (attribute_names m)"
      unfolding attribute_names_def by auto
  qed
  show "keys (relations d) \<subseteq> set (relation_names m)"
  proof
    fix k assume "k \<in> keys (relations d)"
    with pk [of k] have "k \<in> keys fk \<or> (\<exists>c sc. (k, RelationshipProperty c, sc) \<in> set ?px)"
      by (simp add: d)
    with k3 k5 show "k \<in> set (relation_names m)"
      unfolding relation_names_def by auto
  qed
  have "distinct (map fst ad)"
    by (rule render_attributes_loop_distinct [OF ad [unfolded render_attributes_def]]) simp
  then have "distinct (map fst (dict_update ad hy))"
    by (rule distinct_dict_update)
  moreover have "distinct (map fst fk)"
    by (rule render_relations_loop_distinct [OF fk [unfolded render_relations_def]]) simp
  ultimately show "distinct (map fst (attributes d))" and "distinct (map fst (relations d))"
    using render_proxies_loop_distinct [OF px] by (simp_all add: d)
  show "methods d = None" and "polymorphic d = None" by (simp_all add: d)
qed

subsection \<open>The first loop of \<open>DataModelRenderer.render\<close>\<close>

lemma update_append_new: "k \<notin> fst ` set al \<Longrightarrow> AList.update k v al = al @ [(k, v)]"
  by (induction al) auto

lemma render_models_loop_step:
  assumes "render_models_loop ((m, kw) # rest) meths (dm, fl) = Inr (dm', fl')"
  obtains mr ms pi where
    "ClassDefinitionRenderer_render m kw = Inr mr"
    "flag_inheritance_models m = Inr pi"
    "render_models_loop rest meths
       (AList.update (model_name m) (mr\<lparr>methods := Some ms\<rparr>) dm,
        (case pi of Some info \<Rightarrow> AList.update (model_name m) info fl | None \<Rightarrow> fl))
     = Inr (dm', fl')"
  using assms by (auto split: sum.splits)

lemma render_models_loop_other:
  "render_models_loop ms meths (dm, fl) = Inr (dm', fl') \<Longrightarrow>
   n \<notin> (model_name \<circ> fst) ` set ms \<Longrightarrow> map_of dm' n = map_of dm n"
proof (induction ms arbitrary: dm fl)
  case Nil
  then show ?case by simp
next
  case (Cons x ms)
  obtain m kw where x: "x = (m, kw)" by (cases x)
  from Cons.prems(2) have n: "n \<noteq> model_name m" "n \<notin> (model_name \<circ> fst) ` set ms"
    by (auto simp: x)
  from Cons.prems(1) [unfolded x] show ?case
  proof (rule render_models_loop_step)
    fix mr mths pi
    assume "render_models_loop ms meths
       (AList.update (model_name m) (mr\<lparr>methods := Some mths\<rparr>) dm,
        (case pi of Some info \<Rightarrow> AList.update (model_name m) info fl | None \<Rightarrow> fl))
     = Inr (dm', fl')"
    from Cons.IH [OF this n(2)] show ?thesis
      by (simp add: map_of_update_other [OF n(1)])
  qed
qed

lemma render_models_loop_entry:
  "render_models_loop ms meths (dm, fl) = Inr (dm', fl') \<Longrightarrow>
   distinct (map (model_name \<circ> fst) ms) \<Longrightarrow> (m, kw) \<in> set ms \<Longrightarrow>
   \<exists>mr mths. ClassDefinitionRenderer_render m kw = Inr mr \<and>
              map_of dm' (model_name m) = Some (mr\<lparr>methods := Some mths\<rparr>)"
proof (induction ms arbitrary: dm fl)
  case Nil
  then show ?case by simp
next
  case (Cons x ms)
  obtain m' kw' where x: "x = (m', kw')" by (cases x)
  from Cons.prems(2) have dist: "distinct (map (model_name \<circ> fst) ms)"
    and notin: "model_name m' \<notin> (model_name \<circ> fst) ` set ms"
    by (simp_all add: x comp_def)
  from Cons.prems(1) [unfolded x] show ?case
  proof (rule render_models_loop_step)
    fix mr mths pi
    assume mr: "ClassDefinitionRenderer_render m' kw' = Inr mr"
      and loop: "render_models_loop ms meths
         (AList.update (model_name m') (mr\<lparr>methods := Some mths\<rparr>) dm,
          (case pi of Some info \<Rightarrow> AList.update (model_name m') info fl | None \<Rightarrow> fl))
       = Inr (dm', fl')"
    show ?thesis
    proof (cases "(m, kw) = (m', kw')")
      case True
      from render_models_loop_other [OF loop notin] mr True show ?thesis
        by (auto simp: map_of_update_same)
    next
      case False
      with Cons.prems(3) x have "(m, kw) \<in> set ms" by auto
      from Cons.IH [OF loop dist this] show ?thesis .
    qed
  qed
qed

lemma render_models_loop_origin:
  "render_models_loop ms meths (dm, fl) = Inr (dm', fl') \<Longrightarrow> map_of dm' n = Some d \<Longrightarrow>
   map_of dm n = Some d \<or>
   (\<exists>m kw mr mths. (m, kw) \<in> set ms \<and> n = model_name m \<and>
                    ClassDefinitionRenderer_render m kw = Inr mr \<and>
                    d = mr\<lparr>methods := Some mths\<rparr>)"
proof (induction ms arbitrary: dm fl)
  case Nil
  then show ?case by simp
next
  case (Cons x ms)
  obtain m' kw' where x: "x = (m', kw')" by (cases x)
  from Cons.prems(1) [unfolded x] show ?case
  proof (rule render_models_loop_step)
    fix mr mths pi
    assume mr: "ClassDefinitionRenderer_render m' kw' = Inr mr"
      and loop: "render_models_loop ms meths
         (AList.update (model_name m') (mr\<lparr>methods := Some mths\<rparr>) dm,
          (case pi of Some info \<Rightarrow> AList.update (model_name m') info fl | None \<Rightarrow> fl))
       = Inr (dm', fl')"
    from Cons.IH [OF loop Cons.prems(2)] consider
        (old) "map_of (AList.update (model_name m') (mr\<lparr>methods := Some mths\<rparr>) dm) n = Some d"
      | (new) m kw mr' mths' where "(m, kw) \<in> set ms" "n = model_name m"
          "ClassDefinitionRenderer_render m kw = Inr mr'" "d = mr'\<lparr>methods := Some mths'\<rparr>"
      by blast
    then show ?thesis
    proof cases
      case old
      show ?thesis
      proof (cases "n = model_name m'")
        case True
        with old have "d = mr\<lparr>methods := Some mths\<rparr>" by (simp add: map_of_update_same)
        with mr x True show ?thesis by auto
      next
        case False
        with old show ?thesis by (simp add: map_of_update_other)
      qed
    next
      case new
      then show ?thesis using x by auto
    qed
  qed
qed

lemma render_models_loop_flagged_for_inheritence:
  "render_models_loop ms meths (dm, fl) = Inr (dm', fl') \<Longrightarrow>
   fl' = flagged_for_inheritence ms fl"
proof (induction ms arbitrary: dm fl)
  case Nil
  then show ?case by simp
next
  case (Cons x ms)
  obtain m kw where x: "x = (m, kw)" by (cases x)
  from Cons.prems [unfolded x] show ?case
  proof (rule render_models_loop_step)
    fix mr mths pi
    assume flag: "flag_inheritance_models m = Inr pi"
      and loop: "render_models_loop ms meths
         (AList.update (model_name m) (mr\<lparr>methods := Some mths\<rparr>) dm,
          (case pi of Some info \<Rightarrow> AList.update (model_name m) info fl | None \<Rightarrow> fl))
       = Inr (dm', fl')"
    from Cons.IH [OF loop] show ?thesis
      by (cases pi) (simp_all add: x flag)
  qed
qed

lemma flagged_items_mem:
  "(n, info) \<in> set (flagged_items ms) \<Longrightarrow>
   \<exists>m kw. (m, kw) \<in> set ms \<and> n = model_name m \<and> flag_inheritance_models m = Inr (Some info)"
  by (induction ms rule: flagged_items.induct)
     (auto split: sum.splits option.splits)

lemma flagged_items_keys:
  "fst ` set (flagged_items ms) \<subseteq> (model_name \<circ> fst) ` set ms"
proof
  fix n assume "n \<in> fst ` set (flagged_items ms)"
  then obtain info where "(n, info) \<in> set (flagged_items ms)" by auto
  from flagged_items_mem [OF this] show "n \<in> (model_name \<circ> fst) ` set ms"
    by force
qed

lemma flagged_items_distinct:
  "distinct (map (model_name \<circ> fst) ms) \<Longrightarrow> distinct (map fst (flagged_items ms))"
proof (induction ms rule: flagged_items.induct)
  case 1
  show ?case by simp
next
  case (2 m kw rest)
  from "2.prems" have "model_name m \<notin> fst ` set (flagged_items rest)"
    using flagged_items_keys [of rest] by auto
  with 2 show ?case by (auto split: sum.splits option.splits)
qed

lemma flagged_items_append:
  "flagged_items (xs @ ys) = flagged_items xs @ flagged_items ys"
  by (induction xs rule: flagged_items.induct) (auto split: sum.splits option.splits)

lemma flagged_items_unflagged:
  assumes "distinct (map (model_name \<circ> fst) ms)" and "(m, kw) \<in> set ms"
    and "flag_inheritance_models m = Inr None"
  shows "model_name m \<notin> fst ` set (flagged_items ms)"
proof
  assume "model_name m \<in> fst ` set (flagged_items ms)"
  then obtain info where "(model_name m, info) \<in> set (flagged_items ms)" by auto
  from flagged_items_mem [OF this] obtain m' kw' where m': "(m', kw') \<in> set ms"
    "model_name m = model_name m'" "flag_inheritance_models m' = Inr (Some info)" by blast
  from assms(1,2) m'(1,2) have "m = m'"
    by (metis (no_types, lifting) comp_apply distinct_map fst_conv inj_onD)
  with assms(3) m'(3) show False by simp
qed

lemma render_models_loop_flagged:
  "render_models_loop ms meths (dm, fl) = Inr (dm', fl') \<Longrightarrow>
   distinct (map (model_name \<circ> fst) ms) \<Longrightarrow>
   (model_name \<circ> fst) ` set ms \<inter> fst ` set fl = {} \<Longrightarrow>
   fl' = fl @ flagged_items ms"
proof (induction ms arbitrary: dm fl)
  case Nil
  then show ?case by simp
next
  case (Cons x ms)
  obtain m kw where x: "x = (m, kw)" by (cases x)
  from Cons.prems(2) have dist: "distinct (map (model_name \<circ> fst) ms)"
    and notin: "model_name m \<notin> (model_name \<circ> fst) ` set ms"
    by (simp_all add: x comp_def)
  from Cons.prems(3) have new: "model_name m \<notin> fst ` set fl"
    and disj: "(model_name \<circ> fst) ` set ms \<inter> fst ` set fl = {}"
    by (auto simp: x)
  from Cons.prems(1) [unfolded x] show ?case
  proof (rule render_models_loop_step)
    fix mr mths pi
    assume flag: "flag_inheritance_models m = Inr pi"
      and loop: "render_models_loop ms meths
         (AList.update (model_name m) (mr\<lparr>methods := Some mths\<rparr>) dm,
          (case pi of Some info \<Rightarrow> AList.update (model_name m) info fl | None \<Rightarrow> fl))
       = Inr (dm', fl')"
    show ?thesis
    proof (cases pi)
      case None
      with loop have "render_models_loop ms meths
         (AList.update (model_name m) (mr\<lparr>methods := Some mths\<rparr>) dm, fl) = Inr (dm', fl')"
        by simp
      from Cons.IH [OF this dist disj] show ?thesis
        by (simp add: x flag None)
    next
      case (Some info)
      with loop have l: "render_models_loop ms meths
         (AList.update (model_name m) (mr\<lparr>methods := Some mths\<rparr>) dm,
          fl @ [(model_name m, info)]) = Inr (dm', fl')"
        by (simp add: update_append_new [OF new])
      from disj notin
      have "(model_name \<circ> fst) ` set ms \<inter> fst ` set (fl @ [(model_name m, info)]) = {}"
        by auto
      from Cons.IH [OF l dist this] show ?thesis
        by (simp add: x flag Some)
    qed
  qed
qed

subsection \<open>Resolving inheritance\<close>

text \<open>What one call of \<open>resolve_inheritance\<close> writes, entry by entry.\<close>

lemma resolve_inheritance_entries:
  assumes "resolve_inheritance n inh dm = Inr dm1"
  obtains idef odef pp where
    "map_of dm (inh_parent inh) = Some idef"
    "map_of dm n = Some odef"
    "\<And>k. k \<noteq> n \<Longrightarrow> k \<noteq> inh_parent inh \<Longrightarrow> map_of dm1 k = map_of dm k"
    "inh_parent inh \<noteq> n \<Longrightarrow>
       map_of dm1 n =
         Some (odef\<lparr>attributes := dict_update (attributes odef) (attributes idef),
                    relations := dict_update (relations odef) (relations idef),
                    polymorphic := Some \<lparr>poly_parent = Some (inh_parent inh), poly_on = None,
                                          poly_identities = None\<rparr>\<rparr>)"
    "inh_parent inh \<noteq> n \<Longrightarrow>
       map_of dm1 (inh_parent inh) = Some (idef\<lparr>polymorphic := Some pp\<rparr>) \<and>
       poly_parent pp = (case polymorphic idef of None \<Rightarrow> None | Some p \<Rightarrow> poly_parent p)"
    "inh_parent inh = n \<Longrightarrow>
       map_of dm1 n =
         Some (odef\<lparr>attributes := dict_update (attributes odef) (attributes odef),
                    relations := dict_update (relations odef) (relations odef),
                    polymorphic := Some pp\<rparr>)"
proof -
  from assms obtain idef where idef: "map_of dm (inh_parent inh) = Some idef"
    by (auto simp: resolve_inheritance_def getitem_def split: option.splits)
  from assms obtain odef where odef: "map_of dm n = Some odef"
    by (auto simp: resolve_inheritance_def getitem_def split: option.splits)
  define odef' where "odef' = odef\<lparr>attributes := dict_update (attributes odef) (attributes idef),
                    relations := dict_update (relations odef) (relations idef),
                    polymorphic := Some \<lparr>poly_parent = Some (inh_parent inh), poly_on = None,
                                          poly_identities = None\<rparr>\<rparr>"
  define idef1 where "idef1 = (if inh_parent inh = n then odef' else idef)"
  define p0 where "p0 = (case polymorphic idef1 of
                      None \<Rightarrow> \<lparr>poly_parent = None, poly_on = None, poly_identities = None\<rparr>
                    | Some p \<Rightarrow> p)"
  define pp where "pp = p0\<lparr>poly_on := Some (inh_on inh),
       poly_identities := Some (AList.update (inh_identity inh) n
          (case poly_identities (p0\<lparr>poly_on := Some (inh_on inh)\<rparr>) of None \<Rightarrow> [] | Some i \<Rightarrow> i))\<rparr>"
  have "resolve_inheritance n inh dm =
          Inr (AList.update (inh_parent inh) (idef1\<lparr>polymorphic := Some pp\<rparr>)
                 (AList.update n odef' dm))"
    using idef odef
    by (simp add: resolve_inheritance_def getitem_def Let_def odef'_def idef1_def p0_def pp_def)
  with assms have dm1: "dm1 = AList.update (inh_parent inh) (idef1\<lparr>polymorphic := Some pp\<rparr>)
                     (AList.update n odef' dm)"
    by simp
  have pp: "poly_parent pp = poly_parent p0" by (simp add: pp_def)
  show thesis
  proof (rule that [of idef odef pp])
    show "map_of dm (inh_parent inh) = Some idef" by (rule idef)
    show "map_of dm n = Some odef" by (rule odef)
    show "map_of dm1 k = map_of dm k" if "k \<noteq> n" "k \<noteq> inh_parent inh" for k
      using that by (simp add: dm1 update_conv')
    show "map_of dm1 n =
         Some (odef\<lparr>attributes := dict_update (attributes odef) (attributes idef),
                    relations := dict_update (relations odef) (relations idef),
                    polymorphic := Some \<lparr>poly_parent = Some (inh_parent inh), poly_on = None,
                                          poly_identities = None\<rparr>\<rparr>)"
      if "inh_parent inh \<noteq> n"
      using that by (simp add: dm1 update_conv' odef'_def)
    show "map_of dm1 (inh_parent inh) = Some (idef\<lparr>polymorphic := Some pp\<rparr>) \<and>
       poly_parent pp = (case polymorphic idef of None \<Rightarrow> None | Some p \<Rightarrow> poly_parent p)"
      if "inh_parent inh \<noteq> n"
      using that by (simp add: dm1 update_conv' idef1_def pp p0_def split: option.splits)
    show "map_of dm1 n =
         Some (odef\<lparr>attributes := dict_update (attributes odef) (attributes odef),
                    relations := dict_update (relations odef) (relations odef),
                    polymorphic := Some pp\<rparr>)"
      if "inh_parent inh = n"
      using that idef odef by (simp add: dm1 update_conv' idef1_def odef'_def)
  qed
qed

lemma resolve_inheritance_other:
  assumes "resolve_inheritance n inh dm = Inr dm1" and "k \<noteq> n" and "map_of dm k = Some d"
  shows "\<exists>d1. map_of dm1 k = Some d1 \<and> d1 = d\<lparr>polymorphic := polymorphic d1\<rparr> \<and>
           ((\<forall>p. polymorphic d = Some p \<longrightarrow> poly_parent p = None) \<longrightarrow>
            (\<forall>p. polymorphic d1 = Some p \<longrightarrow> poly_parent p = None)) \<and>
           (k \<noteq> inh_parent inh \<longrightarrow> d1 = d)"
  using assms(1)
proof (rule resolve_inheritance_entries)
  fix idef odef pp
  assume idef: "map_of dm (inh_parent inh) = Some idef"
    and other: "\<And>k. k \<noteq> n \<Longrightarrow> k \<noteq> inh_parent inh \<Longrightarrow> map_of dm1 k = map_of dm k"
    and parent: "inh_parent inh \<noteq> n \<Longrightarrow>
       map_of dm1 (inh_parent inh) = Some (idef\<lparr>polymorphic := Some pp\<rparr>) \<and>
       poly_parent pp = (case polymorphic idef of None \<Rightarrow> None | Some p \<Rightarrow> poly_parent p)"
  show ?thesis
  proof (cases "k = inh_parent inh")
    case True
    with assms(2,3) idef parent have "map_of dm1 k = Some (d\<lparr>polymorphic := Some pp\<rparr>)"
      and "poly_parent pp = (case polymorphic d of None \<Rightarrow> None | Some p \<Rightarrow> poly_parent p)"
      by auto
    with assms(2) True show ?thesis by (auto split: option.splits)
  next
    case False
    with other [OF assms(2) False] assms(3) show ?thesis by simp
  qed
qed

lemma resolve_loop_append:
  "resolve_loop (xs @ ys) dm =
     (case resolve_loop xs dm of Inl e \<Rightarrow> Inl e | Inr dm1 \<Rightarrow> resolve_loop ys dm1)"
  by (induction xs dm rule: resolve_loop.induct) (auto split: sum.splits)

lemma resolve_loop_other:
  "resolve_loop fl dm = Inr dm' \<Longrightarrow> k \<notin> fst ` set fl \<Longrightarrow> map_of dm k = Some d \<Longrightarrow>
   \<exists>d'. map_of dm' k = Some d' \<and> d' = d\<lparr>polymorphic := polymorphic d'\<rparr> \<and>
        ((\<forall>p. polymorphic d = Some p \<longrightarrow> poly_parent p = None) \<longrightarrow>
         (\<forall>p. polymorphic d' = Some p \<longrightarrow> poly_parent p = None)) \<and>
        (k \<notin> inh_parent ` snd ` set fl \<longrightarrow> d' = d)"
proof (induction fl arbitrary: dm d)
  case Nil
  then show ?case by simp
next
  case (Cons x fl)
  obtain n inh where x: "x = (n, inh)" by (cases x)
  from Cons.prems(2) have k: "k \<noteq> n" "k \<notin> fst ` set fl" by (auto simp: x)
  from Cons.prems(1) obtain dm1 where step: "resolve_inheritance n inh dm = Inr dm1"
    and loop: "resolve_loop fl dm1 = Inr dm'"
    by (auto simp: x split: sum.splits)
  from resolve_inheritance_other [OF step k(1) Cons.prems(3)] obtain d1 where
    d1: "map_of dm1 k = Some d1" "d1 = d\<lparr>polymorphic := polymorphic d1\<rparr>"
      "(\<forall>p. polymorphic d = Some p \<longrightarrow> poly_parent p = None) \<longrightarrow>
       (\<forall>p. polymorphic d1 = Some p \<longrightarrow> poly_parent p = None)"
      "k \<noteq> inh_parent inh \<longrightarrow> d1 = d"
    by blast
  from Cons.IH [OF loop k(2) d1(1)] obtain d' where
    d': "map_of dm' k = Some d'" "d' = d1\<lparr>polymorphic := polymorphic d'\<rparr>"
      "(\<forall>p. polymorphic d1 = Some p \<longrightarrow> poly_parent p = None) \<longrightarrow>
       (\<forall>p. polymorphic d' = Some p \<longrightarrow> poly_parent p = None)"
      "k \<notin> inh_parent ` snd ` set fl \<longrightarrow> d' = d1"
    by blast
  have "d' = d\<lparr>polymorphic := polymorphic d'\<rparr>"
    by (subst d'(2), subst d1(2)) simp
  moreover from d1(3) d'(3)
  have "(\<forall>p. polymorphic d = Some p \<longrightarrow> poly_parent p = None) \<longrightarrow>
        (\<forall>p. polymorphic d' = Some p \<longrightarrow> poly_parent p = None)"
    by blast
  moreover from d1(4) d'(4) have "k \<notin> inh_parent ` snd ` set (x # fl) \<longrightarrow> d' = d"
    by (auto simp: x)
  ultimately show ?case using d'(1) by blast
qed

lemma resolve_inheritance_sources_invariant:
  fixes a r :: "string \<Rightarrow> string set"
  assumes "resolve_inheritance n inh dm = Inr dm1"
    and inv: "\<And>k d. map_of dm k = Some d \<Longrightarrow>
                keys (attributes d) \<subseteq> (\<Union>x\<in>set (S k). a x) \<and>
                keys (relations d) \<subseteq> (\<Union>x\<in>set (S k). r x)"
    and "map_of dm1 k = Some d"
  shows "keys (attributes d) \<subseteq> (\<Union>x\<in>set ((S(n := S n @ S (inh_parent inh))) k). a x) \<and>
         keys (relations d) \<subseteq> (\<Union>x\<in>set ((S(n := S n @ S (inh_parent inh))) k). r x)"
  using assms(1)
proof (rule resolve_inheritance_entries)
  fix idef odef pp
  assume idef: "map_of dm (inh_parent inh) = Some idef"
    and odef: "map_of dm n = Some odef"
    and e_other: "\<And>k. k \<noteq> n \<Longrightarrow> k \<noteq> inh_parent inh \<Longrightarrow> map_of dm1 k = map_of dm k"
    and e_child: "inh_parent inh \<noteq> n \<Longrightarrow>
       map_of dm1 n =
         Some (odef\<lparr>attributes := dict_update (attributes odef) (attributes idef),
                    relations := dict_update (relations odef) (relations idef),
                    polymorphic := Some \<lparr>poly_parent = Some (inh_parent inh), poly_on = None,
                                          poly_identities = None\<rparr>\<rparr>)"
    and e_parent: "inh_parent inh \<noteq> n \<Longrightarrow>
       map_of dm1 (inh_parent inh) = Some (idef\<lparr>polymorphic := Some pp\<rparr>) \<and>
       poly_parent pp = (case polymorphic idef of None \<Rightarrow> None | Some p \<Rightarrow> poly_parent p)"
    and e_same: "inh_parent inh = n \<Longrightarrow>
       map_of dm1 n =
         Some (odef\<lparr>attributes := dict_update (attributes odef) (attributes odef),
                    relations := dict_update (relations odef) (relations odef),
                    polymorphic := Some pp\<rparr>)"
  note i = inv [OF idef] and o = inv [OF odef]
  consider (child) "k = n" "inh_parent inh \<noteq> n" | (same) "k = n" "inh_parent inh = n"
    | (parent) "k \<noteq> n" "k = inh_parent inh" | (other) "k \<noteq> n" "k \<noteq> inh_parent inh"
    by blast
  then show ?thesis
  proof cases
    case child
    from e_child [OF child(2)] assms(3) child(1)
    have "attributes d = dict_update (attributes odef) (attributes idef)"
      and "relations d = dict_update (relations odef) (relations idef)"
      by auto
    with i o child(1) show ?thesis
      by (simp add: keys_dict_update) blast
  next
    case same
    from e_same [OF same(2)] assms(3) same(1)
    have "attributes d = dict_update (attributes odef) (attributes odef)"
      and "relations d = dict_update (relations odef) (relations odef)"
      by auto
    with o same(1) show ?thesis
      by (simp add: keys_dict_update) blast
  next
    case parent
    from e_parent assms(3) parent
    have "attributes d = attributes idef" and "relations d = relations idef"
      by auto
    with i parent show ?thesis by simp
  next
    case other
    with e_other [of k] assms(3) inv [of k d]
    show ?thesis by simp
  qed
qed

lemma resolve_loop_sources_invariant:
  fixes a r :: "string \<Rightarrow> string set"
  shows "resolve_loop fl dm = Inr dm' \<Longrightarrow>
   (\<And>k d. map_of dm k = Some d \<Longrightarrow>
           keys (attributes d) \<subseteq> (\<Union>x\<in>set (S k). a x) \<and>
           keys (relations d) \<subseteq> (\<Union>x\<in>set (S k). r x)) \<Longrightarrow>
   map_of dm' k = Some d \<Longrightarrow>
   keys (attributes d) \<subseteq> (\<Union>x\<in>set (merged_into fl S k). a x) \<and>
   keys (relations d) \<subseteq> (\<Union>x\<in>set (merged_into fl S k). r x)"
proof (induction fl arbitrary: dm S)
  case Nil
  then show ?case by simp
next
  case (Cons x fl)
  obtain n inh where x: "x = (n, inh)" by (cases x)
  from Cons.prems(1) obtain dm1 where step: "resolve_inheritance n inh dm = Inr dm1"
    and loop: "resolve_loop fl dm1 = Inr dm'"
    by (auto simp: x split: sum.splits)
  have "keys (attributes d) \<subseteq>
          (\<Union>x\<in>set (merged_into fl (S(n := S n @ S (inh_parent inh))) k). a x) \<and>
        keys (relations d) \<subseteq>
          (\<Union>x\<in>set (merged_into fl (S(n := S n @ S (inh_parent inh))) k). r x)"
  proof (rule Cons.IH [OF loop _ Cons.prems(3)])
    fix k' d' assume "map_of dm1 k' = Some d'"
    with step Cons.prems(2)
    show "keys (attributes d') \<subseteq> (\<Union>x\<in>set ((S(n := S n @ S (inh_parent inh))) k'). a x) \<and>
          keys (relations d') \<subseteq> (\<Union>x\<in>set ((S(n := S n @ S (inh_parent inh))) k'). r x)"
      by (rule resolve_inheritance_sources_invariant)
  qed
  then show ?case by (simp add: x)
qed

lemma set_fields_named:
  "set (fields_named f models names) =
     (\<Union>x\<in>set names. set (fields_named f models [x]))"
  by (auto simp: fields_named_def split: if_splits)

lemma fields_named_own:
  "(m, kw) \<in> set models \<Longrightarrow> set (f m) \<subseteq> set (fields_named f models [model_name m])"
  by (force simp: fields_named_def)

lemma resolve_inheritance_child:
  assumes "resolve_inheritance n inh dm = Inr dm1" and "inh_parent inh \<noteq> n"
    and "map_of dm (inh_parent inh) = Some idef" and "map_of dm n = Some odef"
  shows "\<exists>d1. map_of dm1 n = Some d1 \<and>
           attributes d1 = dict_update (attributes odef) (attributes idef) \<and>
           relations d1 = dict_update (relations odef) (relations idef)"
  using assms(1)
proof (rule resolve_inheritance_entries)
  fix idef' odef' pp
  assume "map_of dm (inh_parent inh) = Some idef'" "map_of dm n = Some odef'"
    and "inh_parent inh \<noteq> n \<Longrightarrow>
       map_of dm1 n =
         Some (odef'\<lparr>attributes := dict_update (attributes odef') (attributes idef'),
                    relations := dict_update (relations odef') (relations idef'),
                    polymorphic := Some \<lparr>poly_parent = Some (inh_parent inh), poly_on = None,
                                          poly_identities = None\<rparr>\<rparr>)"
  with assms(2-4) show ?thesis by simp
qed

lemma resolve_inheritance_defined:
  assumes "resolve_inheritance n inh dm = Inr dm1"
  shows "\<exists>odef. map_of dm n = Some odef"
  using assms by (rule resolve_inheritance_entries) blast

lemma resolve_loop_attributes:
  assumes "resolve_loop fl dm = Inr dm'" and "k \<notin> fst ` set fl" and "map_of dm k = Some d"
  shows "\<exists>d'. map_of dm' k = Some d' \<and> attributes d' = attributes d \<and>
              relations d' = relations d"
proof -
  from resolve_loop_other [OF assms] obtain d' where d': "map_of dm' k = Some d'"
    and eq: "d' = d\<lparr>polymorphic := polymorphic d'\<rparr>" by blast
  from arg_cong [where f = attributes, OF eq] arg_cong [where f = relations, OF eq]
  have "attributes d' = attributes d" "relations d' = relations d" by simp_all
  with d' show ?thesis by blast
qed

subsection \<open>The composed schema\<close>

lemma DataModelRenderer_render_passes:
  assumes "DataModelRenderer_render models meths = Inr dm"
  obtains dm0 fl where "render_models_loop models meths ([], []) = Inr (dm0, fl)"
    and "resolve_loop fl dm0 = Inr dm"
  using assms by (auto simp: DataModelRenderer_render_def split: sum.splits)

text \<open>
  C3, as the code has it. Nothing in the renderers keeps a name out of one mapping
  because it is in the other. In the composed schema the key sets of a descriptor are
  disjoint when no name is at once a scalar field (a column name, the name of a hybrid
  property or of a proxy onto a column) and a relational field (a relationship key or
  the name of a proxy onto a relationship) among the fields of the model itself and of
  the models merged into it by polymorphism resolution; the fields of the other models
  of the collection do not matter.
\<close>

theorem composed_schema_disjoint_fields:
  assumes "DataModelRenderer_render models meths = Inr dm"
    and "map_of dm n = Some d"
    and "set (fields_named attribute_names models (merged_models models n))
           \<inter> set (fields_named relation_names models (merged_models models n)) = {}"
  shows "keys (attributes d) \<inter> keys (relations d) = {}"
  using assms(1)
proof (rule DataModelRenderer_render_passes)
  fix dm0 fl
  assume loop1: "render_models_loop models meths ([], []) = Inr (dm0, fl)"
    and loop2: "resolve_loop fl dm0 = Inr dm"
  let ?a = "\<lambda>x. set (fields_named attribute_names models [x])"
  let ?r = "\<lambda>x. set (fields_named relation_names models [x])"
  from render_models_loop_flagged_for_inheritence [OF loop1]
  have fl: "fl = flagged_for_inheritence models []" .
  have "keys (attributes d) \<subseteq> (\<Union>x\<in>set (merged_into fl (\<lambda>n. [n]) n). ?a x) \<and>
        keys (relations d) \<subseteq> (\<Union>x\<in>set (merged_into fl (\<lambda>n. [n]) n). ?r x)"
    using loop2 _ assms(2)
  proof (rule resolve_loop_sources_invariant)
    fix k d0 assume "map_of dm0 k = Some d0"
    from render_models_loop_origin [OF loop1 this] obtain m kw mr mths
      where m: "(m, kw) \<in> set models" and k: "k = model_name m"
        and mr: "ClassDefinitionRenderer_render m kw = Inr mr"
        and d0: "d0 = mr\<lparr>methods := Some mths\<rparr>"
      by auto
    from ClassDefinitionRenderer_render_keys(1,2) [OF mr]
      fields_named_own [OF m, of attribute_names] fields_named_own [OF m, of relation_names]
    show "keys (attributes d0) \<subseteq> (\<Union>x\<in>set [k]. ?a x) \<and>
          keys (relations d0) \<subseteq> (\<Union>x\<in>set [k]. ?r x)"
      by (simp add: d0 k) blast
  qed
  then have "keys (attributes d) \<subseteq> set (fields_named attribute_names models (merged_models models n))"
    and "keys (relations d) \<subseteq> set (fields_named relation_names models (merged_models models n))"
    unfolding merged_models_def fl [symmetric]
      set_fields_named [of attribute_names models "merged_into fl (\<lambda>n. [n]) n"]
      set_fields_named [of relation_names models "merged_into fl (\<lambda>n. [n]) n"]
    by simp_all
  with assms(3) show ?thesis by blast
qed

text \<open>
  C10, as the code has it. A model that declares a polymorphic identity and has no
  eligible parent among its bases is not flagged, and this raises no error; in a
  composed schema (model names unique) its attributes and relations are those of its
  own rendering (no parent merge) and its descriptor names no parent. It carries a
  \<open>polymorphic\<close> entry only as the parent of another model: when no flagged model
  names it as parent, the entry is absent.
\<close>

theorem identity_without_parent:
  assumes "DataModelRenderer_render models meths = Inr dm"
    and "distinct (map (model_name \<circ> fst) models)"
    and "(m, kw) \<in> set models"
    and "model_mapper_args m = Some args"
    and "polymorphic_identity args = Some identity"
    and "find_parent (model_bases m) = None"
  shows "flag_inheritance_models m = Inr None \<and>
         (\<exists>mr d. ClassDefinitionRenderer_render m kw = Inr mr \<and>
                 map_of dm (model_name m) = Some d \<and>
                 attributes d = attributes mr \<and> relations d = relations mr \<and>
                 (\<forall>p. polymorphic d = Some p \<longrightarrow> poly_parent p = None) \<and>
                 ((\<forall>n info. (n, info) \<in> set (flagged_items models) \<longrightarrow>
                             inh_parent info \<noteq> model_name m) \<longrightarrow>
                  polymorphic d = None))"
  using assms(1)
proof (rule DataModelRenderer_render_passes)
  fix dm0 fl
  assume loop1: "render_models_loop models meths ([], []) = Inr (dm0, fl)"
    and loop2: "resolve_loop fl dm0 = Inr dm"
  have flag: "flag_inheritance_models m = Inr None"
    using assms(4-6) by (simp add: flag_inheritance_models_def)
  from render_models_loop_flagged [OF loop1 assms(2)] have fl: "fl = flagged_items models"
    by simp
  from flagged_items_unflagged [OF assms(2,3) flag]
  have notin: "model_name m \<notin> fst ` set fl" by (simp add: fl)
  from render_models_loop_entry [OF loop1 assms(2,3)] obtain mr mths
    where mr: "ClassDefinitionRenderer_render m kw = Inr mr"
      and d0: "map_of dm0 (model_name m) = Some (mr\<lparr>methods := Some mths\<rparr>)"
    by blast
  from resolve_loop_other [OF loop2 notin d0] obtain d
    where d: "map_of dm (model_name m) = Some d"
      and eq: "d = mr\<lparr>methods := Some mths, polymorphic := polymorphic d\<rparr>"
      and par: "(\<forall>p. polymorphic (mr\<lparr>methods := Some mths\<rparr>) = Some p \<longrightarrow> poly_parent p = None)
                  \<longrightarrow> (\<forall>p. polymorphic d = Some p \<longrightarrow> poly_parent p = None)"
      and same: "model_name m \<notin> inh_parent ` snd ` set fl \<longrightarrow> d = mr\<lparr>methods := Some mths\<rparr>"
    by blast
  from arg_cong [where f = attributes, OF eq] arg_cong [where f = relations, OF eq]
  have fields: "attributes d = attributes mr" "relations d = relations mr" by simp_all
  from par ClassDefinitionRenderer_render_keys(6) [OF mr]
  have noparent: "\<forall>p. polymorphic d = Some p \<longrightarrow> poly_parent p = None" by simp
  have alone: "polymorphic d = None"
    if "\<forall>n info. (n, info) \<in> set (flagged_items models) \<longrightarrow> inh_parent info \<noteq> model_name m"
  proof -
    from that have "model_name m \<notin> inh_parent ` snd ` set fl"
      unfolding fl by force
    with same have "d = mr\<lparr>methods := Some mths\<rparr>" by simp
    from arg_cong [where f = polymorphic, OF this]
      ClassDefinitionRenderer_render_keys(6) [OF mr]
    show ?thesis by simp
  qed
  from flag mr d fields noparent alone show ?thesis by blast
qed

text \<open>
  C2, as the code has it. Inheritance is resolved once, in the order in which the
  models were flagged, that is, in input order. For a chain Grandparent, Parent, Child
  (the grandparent not flagged itself, model names unique) in which Parent comes before
  Child in the input collection, the attributes of Child in the composed schema contain
  every attribute of the rendered Grandparent, with its type tag.
\<close>

theorem grandparent_fields_when_parent_first:
  assumes render: "DataModelRenderer_render models meths = Inr dm"
    and dist: "distinct (map (model_name \<circ> fst) models)"
    and order: "models = xs @ (P, kwp) # ys @ (C, kwc) # zs"
    and G: "(G, kwg) \<in> set models"
    and fG: "flag_inheritance_models G = Inr None"
    and fP: "flag_inheritance_models P = Inr (Some ip)"
    and ipG: "inh_parent ip = model_name G"
    and fC: "flag_inheritance_models C = Inr (Some ic)"
    and icP: "inh_parent ic = model_name P"
    and rG: "ClassDefinitionRenderer_render G kwg = Inr dg"
  shows "\<exists>dc. map_of dm (model_name C) = Some dc \<and>
              map_of (attributes dg) \<subseteq>\<^sub>m map_of (attributes dc)"
  using render
proof (rule DataModelRenderer_render_passes)
  fix dm0 fl
  assume loop1: "render_models_loop models meths ([], []) = Inr (dm0, fl)"
    and loop2: "resolve_loop fl dm0 = Inr dm"
  let ?g = "model_name G" and ?p = "model_name P" and ?c = "model_name C"
  define A B D where "A = flagged_items xs" and "B = flagged_items ys"
    and "D = flagged_items zs"
  from render_models_loop_flagged [OF loop1 dist] have fl: "fl = flagged_items models"
    by simp
  have fl': "fl = A @ (?p, ip) # B @ (?c, ic) # D"
    by (simp add: fl order flagged_items_append fP fC A_def B_def D_def)
  have "distinct (map fst fl)"
    unfolding fl by (rule flagged_items_distinct [OF dist])
  then have pB: "?p \<notin> fst ` set B" and pc: "?p \<noteq> ?c" and pD: "?p \<notin> fst ` set D"
    and cD: "?c \<notin> fst ` set D" and pA: "?p \<notin> fst ` set A"
    unfolding fl' by auto
  from flagged_items_unflagged [OF dist G fG]
  have gA: "?g \<notin> fst ` set A" and gp: "?g \<noteq> ?p"
    unfolding fl [symmetric] fl' by auto
  \<comment> \<open>the entries after the first loop\<close>
  from render_models_loop_entry [OF loop1 dist G] rG obtain mg
    where g0: "map_of dm0 ?g = Some (dg\<lparr>methods := Some mg\<rparr>)" by auto
  have "(P, kwp) \<in> set models" by (simp add: order)
  from render_models_loop_entry [OF loop1 dist this] obtain dp mp
    where rP: "ClassDefinitionRenderer_render P kwp = Inr dp"
      and p0: "map_of dm0 ?p = Some (dp\<lparr>methods := Some mp\<rparr>)" by blast
  \<comment> \<open>the second loop, cut at Parent and at Child\<close>
  from loop2 have "resolve_loop (A @ ((?p, ip) # B @ (?c, ic) # D)) dm0 = Inr dm"
    by (simp add: fl')
  then obtain dmA where lA: "resolve_loop A dm0 = Inr dmA"
    and r1: "resolve_loop ((?p, ip) # B @ (?c, ic) # D) dmA = Inr dm"
    by (auto simp: resolve_loop_append split: sum.splits)
  from r1 obtain dm1 where sP: "resolve_inheritance ?p ip dmA = Inr dm1"
    and r2: "resolve_loop (B @ ((?c, ic) # D)) dm1 = Inr dm"
    by (auto split: sum.splits)
  from r2 obtain dmB where lB: "resolve_loop B dm1 = Inr dmB"
    and r3: "resolve_loop ((?c, ic) # D) dmB = Inr dm"
    by (auto simp: resolve_loop_append split: sum.splits)
  from r3 obtain dm2 where sC: "resolve_inheritance ?c ic dmB = Inr dm2"
    and lD: "resolve_loop D dm2 = Inr dm"
    by (auto split: sum.splits)
  \<comment> \<open>Parent takes the grandparent's attributes\<close>
  from resolve_loop_attributes [OF lA gA g0] obtain xg
    where xg: "map_of dmA ?g = Some xg" "attributes xg = attributes dg" by auto
  from resolve_loop_attributes [OF lA pA p0] obtain xp
    where xp: "map_of dmA ?p = Some xp" "attributes xp = attributes dp" by auto
  from resolve_inheritance_child [OF sP _ _ xp(1)] xg(1) gp ipG obtain yp
    where yp: "map_of dm1 ?p = Some yp"
      "attributes yp = dict_update (attributes dp) (attributes dg)"
    by (auto simp: xp(2) xg(2))
  from resolve_loop_attributes [OF lB pB yp(1)] obtain zp
    where zp: "map_of dmB ?p = Some zp"
      "attributes zp = dict_update (attributes dp) (attributes dg)"
    by (auto simp: yp(2))
  \<comment> \<open>Child takes Parent's attributes, and keeps them\<close>
  from resolve_inheritance_defined [OF sC] obtain xc where xc: "map_of dmB ?c = Some xc" ..
  from resolve_inheritance_child [OF sC _ _ xc] zp(1) pc icP obtain yc
    where yc: "map_of dm2 ?c = Some yc"
      "attributes yc = dict_update (attributes xc) (attributes zp)"
    by auto
  from resolve_loop_attributes [OF lD cD yc(1)] obtain dc
    where dc: "map_of dm ?c = Some dc" "attributes dc = attributes yc" by auto
  have dg: "distinct (map fst (attributes dg))"
    by (rule ClassDefinitionRenderer_render_keys(3) [OF rG])
  have "distinct (map fst (attributes dp))"
    by (rule ClassDefinitionRenderer_render_keys(3) [OF rP])
  then have "distinct (map fst (attributes zp))"
    unfolding zp(2) by (rule distinct_dict_update)
  then have "map_of (attributes dc) = map_of (attributes xc) ++ map_of (attributes zp)"
    by (simp add: dc(2) yc(2) map_of_dict_update)
  also have "map_of (attributes zp) = map_of (attributes dp) ++ map_of (attributes dg)"
    by (simp add: zp(2) map_of_dict_update [OF dg])
  finally have "map_of (attributes dc)
      = map_of (attributes xc) ++ (map_of (attributes dp) ++ map_of (attributes dg))" .
  then have "map_of (attributes dg) \<subseteq>\<^sub>m map_of (attributes dc)"
    by (simp add: map_le_def map_add_def dom_def split: option.splits)
  with dc(1) show ?thesis by blast
qed

subsection \<open>The theorems on the example models\<close>

lemma render_ex_user:
  "ClassDefinitionRenderer_render ex_user ex_kwargs =
     Inr \<lparr>pk_name = ''id'', collection_name = ''items'',
          attributes = [(''id'', ''integer''), (''group_id'', ''integer''),
                        (''group_name'', ''string'')],
          relations =
            [(''profile'',
              [(''foreign_model'', PStr ''Profile''), (''relation_type'', PStr ''ONETOONE''),
               (''backref'', PNone)]),
             (''group'',
              [(''foreign_model'', PStr ''Group''), (''relation_type'', PStr ''MANYTOONE''),
               (''backref'', PStr ''users''), (''local_column'', PStr ''group_id'')]),
             (''tags'',
              [(''foreign_model'', PStr ''Tag''), (''relation_type'', PStr ''ONETOMANY''),
               (''is_proxy'', PBool True)])],
          methods = None, polymorphic = None\<rparr>"
  by (simp add: example_defs class_renderer_defs str_lower_examples)

lemma render_ex_pet:
  "ClassDefinitionRenderer_render ex_pet ex_kwargs =
     Inr \<lparr>pk_name = ''id'', collection_name = ''items'',
          attributes = [(''id'', ''integer''), (''owner'', ''integer'')],
          relations =
            [(''owner'',
              [(''foreign_model'', PStr ''Person''), (''relation_type'', PStr ''MANYTOONE''),
               (''backref'', PNone), (''local_column'', PStr ''owner'')])],
          methods = None, polymorphic = None\<rparr>"
  by (simp add: example_defs class_renderer_defs str_lower_examples)

lemma flag_plain_examples:
  "flag_inheritance_models ex_user = Inr None" "flag_inheritance_models ex_pet = Inr None"
  by (simp_all add: example_defs flag_inheritance_models_def)

lemma model_name_plain_examples:
  "model_name ex_user = ''User''" "model_name ex_pet = ''Pet''"
  by (simp_all add: example_defs)

lemmas plain_eval =
  render_ex_user render_ex_pet flag_plain_examples model_name_plain_examples ex_methods_def
  DataModelRenderer_render_def getitem_def

lemma compose_pet:
  "DataModelRenderer_render [(ex_pet, ex_kwargs)] ex_methods =
     Inr [(''Pet'',
           \<lparr>pk_name = ''id'', collection_name = ''items'',
            attributes = [(''id'', ''integer''), (''owner'', ''integer'')],
            relations =
              [(''owner'',
                [(''foreign_model'', PStr ''Person''), (''relation_type'', PStr ''MANYTOONE''),
                 (''backref'', PNone), (''local_column'', PStr ''owner'')])],
            methods = Some [], polymorphic = None\<rparr>)]"
  by (simp add: plain_eval)

lemma compose_chain:
  "DataModelRenderer_render
     [(ex_animal, ex_kwargs), (ex_dog, ex_kwargs), (ex_puppy, ex_kwargs)] ex_methods =
     Inr [(''Animal'',
           \<lparr>pk_name = ''id'', collection_name = ''items'',
            attributes = [(''id'', ''integer''), (''type'', ''string''), (''code'', ''integer'')],
            relations = [], methods = Some [],
            polymorphic = Some \<lparr>poly_parent = None, poly_on = Some ''type'',
                                 poly_identities = Some [(''dog'', ''Dog'')]\<rparr>\<rparr>),
          (''Dog'',
           \<lparr>pk_name = ''id'', collection_name = ''items'',
            attributes = [(''id'', ''integer''), (''code'', ''integer''), (''type'', ''string'')],
            relations = [], methods = Some [],
            polymorphic = Some \<lparr>poly_parent = Some ''Animal'', poly_on = Some ''type'',
                                 poly_identities = Some [(''puppy'', ''Puppy'')]\<rparr>\<rparr>),
          (''Puppy'',
           \<lparr>pk_name = ''id'', collection_name = ''items'',
            attributes = [(''id'', ''integer''), (''toy'', ''string''), (''code'', ''integer''),
                          (''type'', ''string'')],
            relations = [], methods = Some [],
            polymorphic = Some \<lparr>poly_parent = Some ''Dog'', poly_on = None,
                                 poly_identities = None\<rparr>\<rparr>)]"
  by (simp add: hierarchy_eval)

lemma compose_chain_reversed:
  "DataModelRenderer_render
     [(ex_puppy, ex_kwargs), (ex_dog, ex_kwargs), (ex_animal, ex_kwargs)] ex_methods =
     Inr [(''Puppy'',
           \<lparr>pk_name = ''id'', collection_name = ''items'',
            attributes = [(''id'', ''integer''), (''toy'', ''string''), (''code'', ''string'')],
            relations = [], methods = Some [],
            polymorphic = Some \<lparr>poly_parent = Some ''Dog'', poly_on = None,
                                 poly_identities = None\<rparr>\<rparr>),
          (''Dog'',
           \<lparr>pk_name = ''id'', collection_name = ''items'',
            attributes = [(''id'', ''integer''), (''code'', ''integer''), (''type'', ''string'')],
            relations = [], methods = Some [],
            polymorphic = Some \<lparr>poly_parent = Some ''Animal'', poly_on = None,
                                 poly_identities = None\<rparr>\<rparr>),
          (''Animal'',
           \<lparr>pk_name = ''id'', collection_name = ''items'',
            attributes = [(''id'', ''integer''), (''type'', ''string''), (''code'', ''integer'')],
            relations = [], methods = Some [],
            polymorphic = Some \<lparr>poly_parent = None, poly_on = Some ''type'',
                                 poly_identities = Some [(''dog'', ''Dog'')]\<rparr>\<rparr>)]"
  by (simp add: hierarchy_eval)

lemmas vehicle_defs =
  vehicle_args_def ex_vehicle_def vehicle_kls_def ex_car_def ex_book_def ex_vehicle_methods_def
  plain_model_def db_Model_def ex_kwargs_def

lemma render_ex_vehicle:
  "ClassDefinitionRenderer_render ex_vehicle ex_kwargs =
     Inr \<lparr>pk_name = ''id'', collection_name = ''items'',
          attributes = [(''id'', ''integer''), (''type'', ''string''),
                        (''owner_id'', ''integer'')],
          relations =
            [(''owner'',
              [(''foreign_model'', PStr ''Person''), (''relation_type'', PStr ''MANYTOONE''),
               (''backref'', PNone), (''local_column'', PStr ''owner_id'')])],
          methods = None, polymorphic = None\<rparr>"
  by (simp add: vehicle_defs class_renderer_defs str_lower_examples)

lemma render_ex_car:
  "ClassDefinitionRenderer_render ex_car ex_kwargs =
     Inr \<lparr>pk_name = ''id'', collection_name = ''items'',
          attributes = [(''id'', ''integer''), (''garage_id'', ''integer'')],
          relations =
            [(''garage'',
              [(''foreign_model'', PStr ''Garage''), (''relation_type'', PStr ''MANYTOONE''),
               (''backref'', PStr ''cars''), (''local_column'', PStr ''garage_id'')])],
          methods = None, polymorphic = None\<rparr>"
  by (simp add: vehicle_defs class_renderer_defs str_lower_examples)

lemma render_ex_book:
  "ClassDefinitionRenderer_render ex_book ex_kwargs =
     Inr \<lparr>pk_name = ''id'', collection_name = ''items'',
          attributes = [(''id'', ''integer''), (''owner'', ''string'')],
          relations = [], methods = None, polymorphic = None\<rparr>"
  by (simp add: vehicle_defs class_renderer_defs str_lower_examples)

lemma flag_vehicle_examples:
  "flag_inheritance_models ex_book = Inr None"
  "flag_inheritance_models ex_vehicle = Inr None"
  "flag_inheritance_models ex_car =
     Inr (Some \<lparr>inh_on = ''type'', inh_parent = ''Vehicle'', inh_identity = ''car''\<rparr>)"
  by (simp_all add: vehicle_defs flag_inheritance_models_def find_parent_def)

lemma model_name_vehicle_examples:
  "model_name ex_book = ''Book''" "model_name ex_vehicle = ''Vehicle''"
  "model_name ex_car = ''Car''"
  by (simp_all add: vehicle_defs)

lemma compose_vehicles:
  "DataModelRenderer_render
     [(ex_book, ex_kwargs), (ex_vehicle, ex_kwargs), (ex_car, ex_kwargs)] ex_vehicle_methods =
     Inr [(''Book'',
           \<lparr>pk_name = ''id'', collection_name = ''items'',
            attributes = [(''id'', ''integer''), (''owner'', ''string'')],
            relations = [], methods = Some [], polymorphic = None\<rparr>),
          (''Vehicle'',
           \<lparr>pk_name = ''id'', collection_name = ''items'',
            attributes = [(''id'', ''integer''), (''type'', ''string''),
                          (''owner_id'', ''integer'')],
            relations =
              [(''owner'',
                [(''foreign_model'', PStr ''Person''), (''relation_type'', PStr ''MANYTOONE''),
                 (''backref'', PNone), (''local_column'', PStr ''owner_id'')])],
            methods = Some [],
            polymorphic = Some \<lparr>poly_parent = None, poly_on = Some ''type'',
                                 poly_identities = Some [(''car'', ''Car'')]\<rparr>\<rparr>),
          (''Car'',
           \<lparr>pk_name = ''id'', collection_name = ''items'',
            attributes = [(''id'', ''integer''), (''garage_id'', ''integer''),
                          (''type'', ''string''), (''owner_id'', ''integer'')],
            relations =
              [(''garage'',
                [(''foreign_model'', PStr ''Garage''), (''relation_type'', PStr ''MANYTOONE''),
                 (''backref'', PStr ''cars''), (''local_column'', PStr ''garage_id'')]),
               (''owner'',
                [(''foreign_model'', PStr ''Person''), (''relation_type'', PStr ''MANYTOONE''),
                 (''backref'', PNone), (''local_column'', PStr ''owner_id'')])],
            methods = Some [],
            polymorphic = Some \<lparr>poly_parent = Some ''Vehicle'', poly_on = None,
                                 poly_identities = None\<rparr>\<rparr>)]"
  by (simp add: render_ex_vehicle render_ex_car render_ex_book flag_vehicle_examples
      model_name_vehicle_examples ex_vehicle_methods_def DataModelRenderer_render_def
      resolve_inheritance_def getitem_def dict_update_def)

lemma merged_models_car:
  "merged_models [(ex_book, ex_kwargs), (ex_vehicle, ex_kwargs), (ex_car, ex_kwargs)] ''Car''
     = [''Car'', ''Vehicle'']"
  by (simp add: merged_models_def flag_vehicle_examples model_name_vehicle_examples)

text \<open>
  C3 fails as stated: the example pet has a column named \<open>owner\<close> (mapped to the
  attribute \<open>owner_id\<close>) and a relationship \<open>owner\<close>; its descriptor has the key
  \<open>owner\<close> in both mappings.
\<close>

theorem disjoint_fields_counterexample:
  "DataModelRenderer_render [(ex_pet, ex_kwargs)] ex_methods =
     Inr [(''Pet'',
           \<lparr>pk_name = ''id'', collection_name = ''items'',
            attributes = [(''id'', ''integer''), (''owner'', ''integer'')],
            relations =
              [(''owner'',
                [(''foreign_model'', PStr ''Person''), (''relation_type'', PStr ''MANYTOONE''),
                 (''backref'', PNone), (''local_column'', PStr ''owner'')])],
            methods = Some [], polymorphic = None\<rparr>)]
   \<and> ''owner'' \<in> keys [(''id'', ''integer''), (''owner'', ''integer'')]
                 \<inter> keys [(''owner'',
                           [(''foreign_model'', PStr ''Person''),
                            (''relation_type'', PStr ''MANYTOONE''),
                            (''backref'', PNone), (''local_column'', PStr ''owner'')])]"
  by (simp add: compose_pet keys_def)

theorem composed_schema_disjoint_fields_witness:
  "merged_models [(ex_book, ex_kwargs), (ex_vehicle, ex_kwargs), (ex_car, ex_kwargs)] ''Car''
     = [''Car'', ''Vehicle'']
   \<and> set (fields_named attribute_names
            [(ex_book, ex_kwargs), (ex_vehicle, ex_kwargs), (ex_car, ex_kwargs)]
            [''Car'', ''Vehicle''])
       = {''id'', ''type'', ''owner_id'', ''garage_id''}
   \<and> set (fields_named relation_names
            [(ex_book, ex_kwargs), (ex_vehicle, ex_kwargs), (ex_car, ex_kwargs)]
            [''Car'', ''Vehicle''])
       = {''owner'', ''garage''}
   \<and> ''owner'' \<in> set (attribute_names ex_book)
   \<and> (\<exists>d. map_of (projr (DataModelRenderer_render
                  [(ex_book, ex_kwargs), (ex_vehicle, ex_kwargs), (ex_car, ex_kwargs)]
                  ex_vehicle_methods)) ''Car'' = Some d
          \<and> keys (attributes d) = {''id'', ''garage_id'', ''type'', ''owner_id''}
          \<and> keys (relations d) = {''garage'', ''owner''}
          \<and> keys (attributes d) \<inter> keys (relations d) = {})"
proof -
  let ?models = "[(ex_book, ex_kwargs), (ex_vehicle, ex_kwargs), (ex_car, ex_kwargs)]"
  let ?d = "\<lparr>pk_name = ''id'', collection_name = ''items'',
            attributes = [(''id'', ''integer''), (''garage_id'', ''integer''),
                          (''type'', ''string''), (''owner_id'', ''integer'')],
            relations =
              [(''garage'',
                [(''foreign_model'', PStr ''Garage''), (''relation_type'', PStr ''MANYTOONE''),
                 (''backref'', PStr ''cars''), (''local_column'', PStr ''garage_id'')]),
               (''owner'',
                [(''foreign_model'', PStr ''Person''), (''relation_type'', PStr ''MANYTOONE''),
                 (''backref'', PNone), (''local_column'', PStr ''owner_id'')])],
            methods = Some [],
            polymorphic = Some \<lparr>poly_parent = Some ''Vehicle'', poly_on = None,
                                 poly_identities = None\<rparr>\<rparr>"
  have a: "set (fields_named attribute_names ?models [''Car'', ''Vehicle''])
             = {''id'', ''type'', ''owner_id'', ''garage_id''}"
    and r: "set (fields_named relation_names ?models [''Car'', ''Vehicle''])
             = {''owner'', ''garage''}"
    and b: "''owner'' \<in> set (attribute_names ex_book)"
    by (auto simp: fields_named_def attribute_names_def relation_names_def vehicle_defs)
  have names: "set (fields_named attribute_names ?models (merged_models ?models ''Car''))
                 \<inter> set (fields_named relation_names ?models (merged_models ?models ''Car''))
               = {}"
    unfolding merged_models_car a r by simp
  have entry: "map_of (projr (DataModelRenderer_render ?models ex_vehicle_methods)) ''Car''
                 = Some ?d"
    by (simp add: compose_vehicles)
  from composed_schema_disjoint_fields
         [OF compose_vehicles entry [unfolded compose_vehicles sum.sel] names]
  have "keys (attributes ?d) \<inter> keys (relations ?d) = {}" .
  moreover have "keys (attributes ?d) = {''id'', ''garage_id'', ''type'', ''owner_id''}"
    and "keys (relations ?d) = {''garage'', ''owner''}"
    by (simp_all add: keys_def)
  ultimately show ?thesis
    using merged_models_car a r b entry
    by (intro conjI exI [of _ ?d]) assumption+
qed

text \<open>A parent class that is eligible but not in the collection: \<open>Dog\<close> rendered
  without \<open>Animal\<close> makes \<open>resolve_inheritance\<close> raise \<open>KeyError\<close>.\<close>

lemma compose_dog_alone:
  "DataModelRenderer_render [(ex_dog, ex_kwargs)] ex_methods = Inl KeyError"
  by (simp add: hierarchy_eval)

text \<open>
  C10 fails as stated: \<open>Animal\<close> declares the identity \<open>animal\<close> and has no eligible
  parent among its bases, and in the schema composed with its subclass \<open>Dog\<close> its
  descriptor carries a \<open>polymorphic\<close> entry.
\<close>

theorem identity_without_parent_counterexample:
  "model_mapper_args ex_animal = Some animal_args
   \<and> polymorphic_identity animal_args = Some ''animal''
   \<and> find_parent (model_bases ex_animal) = None
   \<and> DataModelRenderer_render [(ex_animal, ex_kwargs), (ex_dog, ex_kwargs)] ex_methods =
     Inr [(''Animal'',
           \<lparr>pk_name = ''id'', collection_name = ''items'',
            attributes = [(''id'', ''integer''), (''type'', ''string''), (''code'', ''integer'')],
            relations = [], methods = Some [],
            polymorphic = Some \<lparr>poly_parent = None, poly_on = Some ''type'',
                                 poly_identities = Some [(''dog'', ''Dog'')]\<rparr>\<rparr>),
          (''Dog'',
           \<lparr>pk_name = ''id'', collection_name = ''items'',
            attributes = [(''id'', ''integer''), (''code'', ''integer''), (''type'', ''string'')],
            relations = [], methods = Some [],
            polymorphic = Some \<lparr>poly_parent = Some ''Animal'', poly_on = None,
                                 poly_identities = None\<rparr>\<rparr>)]"
  by (simp add: compose_animal_dog) (simp add: example_defs find_parent_def)

theorem identity_without_parent_witness:
  "distinct (map (model_name \<circ> fst) [(ex_animal, ex_kwargs), (ex_dog, ex_kwargs)])
   \<and> model_mapper_args ex_animal = Some animal_args
   \<and> polymorphic_identity animal_args = Some ''animal''
   \<and> find_parent (model_bases ex_animal) = None
   \<and> flag_inheritance_models ex_animal = Inr None
   \<and> (\<exists>d. map_of (projr (DataModelRenderer_render
                  [(ex_animal, ex_kwargs), (ex_dog, ex_kwargs)] ex_methods)) ''Animal'' = Some d
          \<and> attributes d = [(''id'', ''integer''), (''type'', ''string''), (''code'', ''integer'')]
          \<and> relations d = [])"
proof -
  have dist: "distinct (map (model_name \<circ> fst) [(ex_animal, ex_kwargs), (ex_dog, ex_kwargs)])"
    by (simp add: model_name_examples)
  have mem: "(ex_animal, ex_kwargs) \<in> set [(ex_animal, ex_kwargs), (ex_dog, ex_kwargs)]"
    by simp
  have args: "model_mapper_args ex_animal = Some animal_args"
    and ident: "polymorphic_identity animal_args = Some ''animal''"
    and nopar: "find_parent (model_bases ex_animal) = None"
    by (simp_all add: example_defs find_parent_def)
  from identity_without_parent [OF compose_animal_dog dist mem args ident nopar]
  obtain mr d where flag: "flag_inheritance_models ex_animal = Inr None"
    and mr: "ClassDefinitionRenderer_render ex_animal ex_kwargs = Inr mr"
    and d: "map_of (projr (DataModelRenderer_render
                  [(ex_animal, ex_kwargs), (ex_dog, ex_kwargs)] ex_methods))
              (model_name ex_animal) = Some d"
    and fields: "attributes d = attributes mr" "relations d = relations mr"
    unfolding compose_animal_dog sum.sel by blast
  from mr [unfolded render_ex_animal] fields
  have "attributes d = [(''id'', ''integer''), (''type'', ''string''), (''code'', ''integer'')]"
    and "relations d = []"
    by auto
  with d [unfolded model_name_examples] dist args ident nopar flag
  show ?thesis by (intro conjI exI [of _ d]) assumption+
qed

text \<open>
  C2 fails as stated: with the input in the order \<open>Puppy\<close>, \<open>Dog\<close>, \<open>Animal\<close> the
  composed \<open>Puppy\<close> has no attribute \<open>type\<close>, which \<open>Animal\<close> has: \<open>Puppy\<close> was merged
  with \<open>Dog\<close> before \<open>Dog\<close> was merged with \<open>Animal\<close>.
\<close>

theorem grandparent_fields_counterexample:
  "map_of [(''id'', ''integer''), (''type'', ''string''), (''code'', ''integer'')] ''type''
     = Some ''string''
   \<and> map_of [(''id'', ''integer''), (''toy'', ''string''), (''code'', ''string'')] ''type'' = None
   \<and> DataModelRenderer_render
       [(ex_puppy, ex_kwargs), (ex_dog, ex_kwargs), (ex_animal, ex_kwargs)] ex_methods =
     Inr [(''Puppy'',
           \<lparr>pk_name = ''id'', collection_name = ''items'',
            attributes = [(''id'', ''integer''), (''toy'', ''string''), (''code'', ''string'')],
            relations = [], methods = Some [],
            polymorphic = Some \<lparr>poly_parent = Some ''Dog'', poly_on = None,
                                 poly_identities = None\<rparr>\<rparr>),
          (''Dog'',
           \<lparr>pk_name = ''id'', collection_name = ''items'',
            attributes = [(''id'', ''integer''), (''code'', ''integer''), (''type'', ''string'')],
            relations = [], methods = Some [],
            polymorphic = Some \<lparr>poly_parent = Some ''Animal'', poly_on = None,
                                 poly_identities = None\<rparr>\<rparr>),
          (''Animal'',
           \<lparr>pk_name = ''id'', collection_name = ''items'',
            attributes = [(''id'', ''integer''), (''type'', ''string''), (''code'', ''integer'')],
            relations = [], methods = Some [],
            polymorphic = Some \<lparr>poly_parent = None, poly_on = Some ''type'',
                                 poly_identities = Some [(''dog'', ''Dog'')]\<rparr>\<rparr>)]"
  by (simp add: compose_chain_reversed)

theorem grandparent_fields_when_parent_first_witness:
  "distinct (map (model_name \<circ> fst)
      [(ex_animal, ex_kwargs), (ex_dog, ex_kwargs), (ex_puppy, ex_kwargs)])
   \<and> flag_inheritance_models ex_animal = Inr None
   \<and> flag_inheritance_models ex_dog =
       Inr (Some \<lparr>inh_on = ''type'', inh_parent = ''Animal'', inh_identity = ''dog''\<rparr>)
   \<and> flag_inheritance_models ex_puppy =
       Inr (Some \<lparr>inh_on = ''type'', inh_parent = ''Dog'', inh_identity = ''puppy''\<rparr>)
   \<and> (\<exists>dc. map_of (projr (DataModelRenderer_render
                  [(ex_animal, ex_kwargs), (ex_dog, ex_kwargs), (ex_puppy, ex_kwargs)]
                  ex_methods)) ''Puppy'' = Some dc
           \<and> map_of (attributes dc) ''id'' = Some ''integer''
           \<and> map_of (attributes dc) ''type'' = Some ''string''
           \<and> map_of (attributes dc) ''code'' = Some ''integer'')"
proof -
  let ?models = "[(ex_animal, ex_kwargs), (ex_dog, ex_kwargs), (ex_puppy, ex_kwargs)]"
  have dist: "distinct (map (model_name \<circ> fst) ?models)"
    by (simp add: model_name_examples)
  have order: "?models = [(ex_animal, ex_kwargs)] @ (ex_dog, ex_kwargs) # []
                           @ (ex_puppy, ex_kwargs) # []"
    by simp
  have G: "(ex_animal, ex_kwargs) \<in> set ?models" by simp
  have ipG: "inh_parent \<lparr>inh_on = ''type'', inh_parent = ''Animal'', inh_identity = ''dog''\<rparr>
               = model_name ex_animal"
    and icP: "inh_parent \<lparr>inh_on = ''type'', inh_parent = ''Dog'', inh_identity = ''puppy''\<rparr>
               = model_name ex_dog"
    by (simp_all add: model_name_examples)
  from grandparent_fields_when_parent_first
    [OF compose_chain dist order G flag_ex_animal flag_ex_dog ipG flag_ex_puppy icP
        render_ex_animal]
  obtain dc where dc: "map_of (projr (DataModelRenderer_render ?models ex_methods)) ''Puppy''
                         = Some dc"
    and le: "map_of [(''id'', ''integer''), (''type'', ''string''), (''code'', ''integer'')]
               \<subseteq>\<^sub>m map_of (attributes dc)"
    unfolding compose_chain sum.sel model_name_examples render_ex_animal
    by (auto simp: model_name_examples)
  have at: "map_of [(''id'', ''integer''), (''type'', ''string''), (''code'', ''integer'')] k
              = map_of (attributes dc) k"
    if "k \<in> {''id'', ''type'', ''code''}" for k
    by (rule le [unfolded map_le_def, rule_format]) (use that in \<open>auto simp: dom_def\<close>)
  have "map_of (attributes dc) ''id'' = Some ''integer''"
    using at [of "''id''"] by simp
  moreover have "map_of (attributes dc) ''type'' = Some ''string''"
    using at [of "''type''"] by simp
  moreover have "map_of (attributes dc) ''code'' = Some ''integer''"
    using at [of "''code''"] by simp
  ultimately show ?thesis
    using dc dist flag_ex_animal flag_ex_dog flag_ex_puppy
    by (intro conjI exI [of _ dc]) assumption+
qed

subsection \<open>Registering a model\<close>

lemma DataModel_init_raises: "DataModel_init self created_apis_for = Inl TypeError"
  by (simp add: DataModel_init_def DataModelRenderer_new_def)

lemma register_model_raises: "register_model self m kw = Inl AttributeError"
  by (simp add: register_model_def DataModelRenderer_render_model_def split: option.splits)

text \<open>
  C9, at the failing input. On a fresh \<open>DataModel\<close>, \<open>init\<close> raises \<open>TypeError\<close> at the
  construction of the renderer, so that \<open>model_renderer\<close> stays \<open>None\<close>; registering
  \<open>Dog\<close> then raises \<open>AttributeError\<close>, the first time and every time after, and
  \<open>data_model\<close> stays empty: no entry is stored, and none is replaced.
\<close>

theorem register_model_ex_dog_raises:
  "DataModel_init DataModel_new [(ex_dog, ex_kwargs)] = Inl TypeError
   \<and> model_renderer DataModel_new = None
   \<and> register_model DataModel_new ex_dog ex_kwargs = Inl AttributeError
   \<and> data_model DataModel_new = []"
  by (simp add: DataModel_init_def DataModelRenderer_new_def register_model_def
      DataModel_new_def)


end
